theory Spec2Isabelle
  imports Complex_Main "HOL-Library.Sublist" "HOL-Library.AList"
begin

section \<open>Values read from a ticket corpus\<close>

text \<open>
  Every function of the repository works on what \<^verbatim>\<open>json.loads\<close> returned for one line
  of the corpus: nested dictionaries with string keys. A dictionary is an association
  list holding each key once, read with \<open>map_of\<close>. Strings are byte lists (UTF-8). A
  number is kept with an integer value: the code never computes with a number read from
  the corpus, it only subscripts it, searches it or calls \<^verbatim>\<open>lower\<close> on it, which
  raises for every number alike, or compares it with a string, which is False.
\<close>

datatype json =
    JNull
  | JBool bool
  | JNum int
  | JStr string
  | JArr "json list"
  | JObj "(string \<times> json) list"

text \<open>The exceptions the code can raise, as values.\<close>

datatype error =
    KeyError string
  | TypeError
  | AttributeError
  | JSONDecodeError

definition ebind :: "error + 'a \<Rightarrow> ('a \<Rightarrow> error + 'b) \<Rightarrow> error + 'b" where
  "ebind m f = (case m of Inl e \<Rightarrow> Inl e | Inr x \<Rightarrow> f x)"

text \<open>\<^verbatim>\<open>obj[key]\<close> with a string key: only a dictionary can be read that way.\<close>

fun subscript :: "json \<Rightarrow> string \<Rightarrow> error + json" where
  "subscript (JObj kvs) k = (case map_of kvs k of None \<Rightarrow> Inl (KeyError k) | Some v \<Rightarrow> Inr v)"
| "subscript _ k = Inl TypeError"

text \<open>\<^verbatim>\<open>obj[k1][k2]\<close>.\<close>

definition subscript2 :: "json \<Rightarrow> string \<Rightarrow> string \<Rightarrow> error + json" where
  "subscript2 obj k1 k2 = ebind (subscript obj k1) (\<lambda>inner. subscript inner k2)"

text \<open>\<^verbatim>\<open>needle in haystack\<close> on two strings: a contiguous occurrence.\<close>

fun str_contains :: "string \<Rightarrow> string \<Rightarrow> bool" where
  "str_contains needle [] = (needle = [])"
| "str_contains needle (c # cs) = (prefix needle (c # cs) \<or> str_contains needle cs)"

text \<open>
  \<^verbatim>\<open>needle in container\<close> with a string on the left: substring test on a string,
  element test on a list, key test on a dictionary, TypeError on anything else.
\<close>

fun py_in :: "string \<Rightarrow> json \<Rightarrow> error + bool" where
  "py_in needle (JStr s) = Inr (str_contains needle s)"
| "py_in needle (JArr xs) = Inr (List.member xs (JStr needle))"
| "py_in needle (JObj kvs) = Inr (map_of kvs needle \<noteq> None)"
| "py_in needle _ = Inl TypeError"

text \<open>\<^verbatim>\<open>a or b\<close> on two tests that may raise: the right one runs only when the left is False.\<close>

definition or_else :: "error + bool \<Rightarrow> error + bool \<Rightarrow> error + bool" where
  "or_else a b = (case a of Inl e \<Rightarrow> Inl e | Inr True \<Rightarrow> Inr True | Inr False \<Rightarrow> b)"

section \<open>The decision engine\<close>

text \<open>
  validate\_tickets.py, \<^verbatim>\<open>apply_decision_logic\<close>, lines 28 to 64: the rules, on the six
  values read at the top of the function. The four substring flags are computed before
  rule 4, each of them raising on a value that is not a container.
\<close>

definition decision_rules :: "json \<Rightarrow> json \<Rightarrow> json \<Rightarrow> json \<Rightarrow> json \<Rightarrow> json \<Rightarrow> error + string" where
  "decision_rules rotation_status repo_type usage_evidence criticality exposure past_incidents =
    (if rotation_status \<in> set [JStr ''Revoked'', JStr ''Already Rotated''] then Inr ''Mitigated''
     else if rotation_status = JStr ''Invalid'' then Inr ''False Positive''
     else ebind (or_else (py_in ''Deprecated'' repo_type) (py_in ''Archived'' repo_type)) (\<lambda>archived.
       if archived then Inr ''Suppressed''
       else ebind (py_in ''Active usage'' usage_evidence) (\<lambda>is_active_usage.
            ebind (or_else (py_in ''P0'' criticality) (py_in ''P1'' criticality)) (\<lambda>is_high_criticality.
            ebind (py_in ''Public'' exposure) (\<lambda>is_public.
            ebind (or_else (py_in ''Prod'' repo_type) (py_in ''Monolith'' repo_type)) (\<lambda>is_prod_or_monolith.
            let is_test_qa = (repo_type = JStr ''Test/QA Suite'') in
            if is_test_qa \<and> past_incidents = JStr ''Frequent False Positives in this file''
               \<and> \<not> is_active_usage then Inr ''False Positive''
            else if rotation_status = JStr ''Active/Valid'' \<and> is_active_usage then Inr ''Confirmed''
            else if rotation_status = JStr ''Active/Valid'' \<and> is_high_criticality \<and> is_public
              then Inr ''Confirmed''
            else if rotation_status = JStr ''Active/Valid'' then Inr ''Open''
            else Inr ''Open''))))))"

text \<open>validate\_tickets.py, \<^verbatim>\<open>apply_decision_logic\<close>: the six reads of lines 21 to 26, then the rules.\<close>

definition apply_decision_logic :: "json \<Rightarrow> error + string" where
  "apply_decision_logic data =
    ebind (subscript2 data ''investigation'' ''rotation_status'') (\<lambda>rotation_status.
    ebind (subscript2 data ''repo_details'' ''type'') (\<lambda>repo_type.
    ebind (subscript2 data ''investigation'' ''usage_evidence'') (\<lambda>usage_evidence.
    ebind (subscript2 data ''repo_details'' ''criticality'') (\<lambda>criticality.
    ebind (subscript2 data ''repo_details'' ''exposure'') (\<lambda>exposure.
    ebind (subscript2 data ''investigation'' ''similar_past_incidents'') (\<lambda>past_incidents.
    decision_rules rotation_status repo_type usage_evidence criticality exposure
      past_incidents))))))"

text \<open>
  fix\_tickets.py, \<^verbatim>\<open>apply_decision_logic\<close>, lines 20 to 54: the same rules, without the
  prod-or-monolith flag that the validator's copy computes and never uses.
\<close>

definition fix_decision_rules :: "json \<Rightarrow> json \<Rightarrow> json \<Rightarrow> json \<Rightarrow> json \<Rightarrow> json \<Rightarrow> error + string" where
  "fix_decision_rules rotation_status repo_type usage_evidence criticality exposure past_incidents =
    (if rotation_status \<in> set [JStr ''Revoked'', JStr ''Already Rotated''] then Inr ''Mitigated''
     else if rotation_status = JStr ''Invalid'' then Inr ''False Positive''
     else ebind (or_else (py_in ''Deprecated'' repo_type) (py_in ''Archived'' repo_type)) (\<lambda>archived.
       if archived then Inr ''Suppressed''
       else ebind (py_in ''Active usage'' usage_evidence) (\<lambda>is_active_usage.
            ebind (or_else (py_in ''P0'' criticality) (py_in ''P1'' criticality)) (\<lambda>is_high_criticality.
            ebind (py_in ''Public'' exposure) (\<lambda>is_public.
            let is_test_qa = (repo_type = JStr ''Test/QA Suite'') in
            if is_test_qa \<and> past_incidents = JStr ''Frequent False Positives in this file''
               \<and> \<not> is_active_usage then Inr ''False Positive''
            else if rotation_status = JStr ''Active/Valid'' \<and> is_active_usage then Inr ''Confirmed''
            else if rotation_status = JStr ''Active/Valid'' \<and> is_high_criticality \<and> is_public
              then Inr ''Confirmed''
            else if rotation_status = JStr ''Active/Valid'' then Inr ''Open''
            else Inr ''Open'')))))"

text \<open>fix\_tickets.py, \<^verbatim>\<open>apply_decision_logic\<close>: the reads of lines 13 to 18, then the rules.\<close>

definition fix_apply_decision_logic :: "json \<Rightarrow> error + string" where
  "fix_apply_decision_logic data =
    ebind (subscript2 data ''investigation'' ''rotation_status'') (\<lambda>rotation_status.
    ebind (subscript2 data ''repo_details'' ''type'') (\<lambda>repo_type.
    ebind (subscript2 data ''investigation'' ''usage_evidence'') (\<lambda>usage_evidence.
    ebind (subscript2 data ''repo_details'' ''criticality'') (\<lambda>criticality.
    ebind (subscript2 data ''repo_details'' ''exposure'') (\<lambda>exposure.
    ebind (subscript2 data ''investigation'' ''similar_past_incidents'') (\<lambda>past_incidents.
    fix_decision_rules rotation_status repo_type usage_evidence criticality exposure
      past_incidents))))))"

section \<open>The rule list of the specification\<close>

text \<open>
  The fact bundle of the data model, with its ten string fields, and the five labels.
\<close>

record FactBundle =
  category :: string
  repoType :: string
  exposure :: string
  criticality :: string
  detectionSource :: string
  commitAge :: string
  usageEvidence :: string
  rotationStatus :: string
  impactRadius :: string
  similarPastIncidents :: string

datatype Label = Mitigated | FalsePositive | Suppressed | Confirmed | Open

fun label_name :: "Label \<Rightarrow> string" where
  "label_name Mitigated = ''Mitigated''"
| "label_name FalsePositive = ''False Positive''"
| "label_name Suppressed = ''Suppressed''"
| "label_name Confirmed = ''Confirmed''"
| "label_name Open = ''Open''"

definition canonical_labels :: "string list" where
  "canonical_labels = map label_name [Mitigated, FalsePositive, Suppressed, Confirmed, Open]"

text \<open>The derived predicates of section 4.1, with the substrings the code matches.\<close>

definition isActiveUsage :: "FactBundle \<Rightarrow> bool" where
  "isActiveUsage b = str_contains ''Active usage'' (usageEvidence b)"

definition isHighCriticality :: "FactBundle \<Rightarrow> bool" where
  "isHighCriticality b = (str_contains ''P0'' (criticality b) \<or> str_contains ''P1'' (criticality b))"

definition isPublic :: "FactBundle \<Rightarrow> bool" where
  "isPublic b = str_contains ''Public'' (exposure b)"

definition isTestSuite :: "FactBundle \<Rightarrow> bool" where
  "isTestSuite b = (repoType b = ''Test/QA Suite'')"

definition isArchived :: "FactBundle \<Rightarrow> bool" where
  "isArchived b = (str_contains ''Deprecated'' (repoType b) \<or> str_contains ''Archived'' (repoType b))"

text \<open>Rules 1 to 7 of section 4.1, each a predicate on the bundle.\<close>

definition rule1 :: "FactBundle \<Rightarrow> bool" where
  "rule1 b = (rotationStatus b = ''Revoked'' \<or> rotationStatus b = ''Already Rotated'')"

definition rule2 :: "FactBundle \<Rightarrow> bool" where
  "rule2 b = (rotationStatus b = ''Invalid'')"

definition rule3 :: "FactBundle \<Rightarrow> bool" where
  "rule3 b = isArchived b"

definition rule4 :: "FactBundle \<Rightarrow> bool" where
  "rule4 b = (isTestSuite b
     \<and> similarPastIncidents b = ''Frequent False Positives in this file''
     \<and> \<not> isActiveUsage b)"

definition rule5 :: "FactBundle \<Rightarrow> bool" where
  "rule5 b = (rotationStatus b = ''Active/Valid'' \<and> isActiveUsage b)"

definition rule6 :: "FactBundle \<Rightarrow> bool" where
  "rule6 b = (rotationStatus b = ''Active/Valid'' \<and> isHighCriticality b \<and> isPublic b)"

definition rule7 :: "FactBundle \<Rightarrow> bool" where
  "rule7 b = (rotationStatus b = ''Active/Valid'')"

definition rule_list :: "((FactBundle \<Rightarrow> bool) \<times> Label) list" where
  "rule_list =
    [(rule1, Mitigated), (rule2, FalsePositive), (rule3, Suppressed), (rule4, FalsePositive),
     (rule5, Confirmed), (rule6, Confirmed), (rule7, Open)]"

text \<open>
  First match wins: the rules are tried from the head of the list, the first one whose
  predicate holds gives the label, and rule 8, the fallback, is the end of the list.
\<close>

fun first_match :: "((FactBundle \<Rightarrow> bool) \<times> Label) list \<Rightarrow> FactBundle \<Rightarrow> Label" where
  "first_match [] b = Open"
| "first_match ((p, l) # rules) b = (if p b then l else first_match rules b)"

definition Evaluate :: "FactBundle \<Rightarrow> Label" where
  "Evaluate b = first_match rule_list b"

text \<open>
  A fact dictionary holds the six values the engine reads: each of the six reads of
  \<^verbatim>\<open>apply_decision_logic\<close> succeeds, with that value.
\<close>

definition has_facts :: "json \<Rightarrow> json \<Rightarrow> json \<Rightarrow> json \<Rightarrow> json \<Rightarrow> json \<Rightarrow> json \<Rightarrow> bool" where
  "has_facts data rs rt ue cr ex pinc \<longleftrightarrow>
     subscript2 data ''investigation'' ''rotation_status'' = Inr rs
   \<and> subscript2 data ''repo_details'' ''type'' = Inr rt
   \<and> subscript2 data ''investigation'' ''usage_evidence'' = Inr ue
   \<and> subscript2 data ''repo_details'' ''criticality'' = Inr cr
   \<and> subscript2 data ''repo_details'' ''exposure'' = Inr ex
   \<and> subscript2 data ''investigation'' ''similar_past_incidents'' = Inr pinc"

text \<open>The dictionary of a bundle whose fields are strings.\<close>

definition holds_bundle :: "json \<Rightarrow> FactBundle \<Rightarrow> bool" where
  "holds_bundle data b \<longleftrightarrow>
     has_facts data (JStr (rotationStatus b)) (JStr (repoType b)) (JStr (usageEvidence b))
       (JStr (criticality b)) (JStr (exposure b)) (JStr (similarPastIncidents b))"

text \<open>
  generate\_tickets.py, \<^verbatim>\<open>generate_ticket\<close>, lines 338 to 356: the shape of the fact
  dictionary of a ticket (the wire format of the corpus), here for given field values.
\<close>

definition ticket_data :: "string \<Rightarrow> FactBundle \<Rightarrow> json" where
  "ticket_data snippet b =
    JObj [(''category'', JStr (category b)),
          (''raw_secret_snippet'', JStr snippet),
          (''repo_details'', JObj [(''type'', JStr (repoType b)),
                                  (''exposure'', JStr (exposure b)),
                                  (''criticality'', JStr (criticality b))]),
          (''detection'', JObj [(''source'', JStr (detectionSource b)),
                               (''commit_age'', JStr (commitAge b))]),
          (''investigation'', JObj [(''usage_evidence'', JStr (usageEvidence b)),
                                   (''rotation_status'', JStr (rotationStatus b)),
                                   (''impact_radius'', JStr (impactRadius b)),
                                   (''similar_past_incidents'', JStr (similarPastIncidents b))])]"

section \<open>The consistency validator\<close>

text \<open>
  \<^verbatim>\<open>str.lower\<close> on the letters A to Z; every other byte is kept. The validator
  only compares the result with the lower case of an engine label, which is ASCII and
  has no k: a recorded label with a character outside ASCII is unequal to it here as
  in Python, whose \<^verbatim>\<open>lower\<close> sends only the Kelvin sign to an ASCII letter.
\<close>

definition lower_char :: "char \<Rightarrow> char" where
  "lower_char c =
    (case map_of (zip ''ABCDEFGHIJKLMNOPQRSTUVWXYZ'' ''abcdefghijklmnopqrstuvwxyz'') c of
       Some d \<Rightarrow> d
     | None \<Rightarrow> c)"

definition lower :: "string \<Rightarrow> string" where
  "lower s = map lower_char s"

text \<open>\<^verbatim>\<open>value.lower()\<close> on what was read from a record: only a string has the method.\<close>

fun py_lower :: "json \<Rightarrow> error + string" where
  "py_lower (JStr s) = Inr (lower s)"
| "py_lower _ = Inl AttributeError"

text \<open>\<^verbatim>\<open>obj[k1][k2][k3]\<close>.\<close>

definition subscript3 :: "json \<Rightarrow> string \<Rightarrow> string \<Rightarrow> string \<Rightarrow> error + json" where
  "subscript3 obj k1 k2 k3 = ebind (subscript obj k1) (\<lambda>inner. subscript2 inner k2 k3)"

text \<open>
  The report of validate\_tickets.py, \<^verbatim>\<open>validate_dataset\<close>, lines 69 to 74. The
  mismatch entries are dictionaries, as in the code; \<open>by_label\<close> is the defaultdict, from
  the recorded label to its pair of counters (correct, incorrect).
\<close>

record results =
  total_tickets :: nat
  matches :: nat
  mismatches :: "json list"
  by_label :: "json \<rightharpoonup> nat \<times> nat"

definition count_correct :: "(json \<rightharpoonup> nat \<times> nat) \<Rightarrow> json \<Rightarrow> (json \<rightharpoonup> nat \<times> nat)" where
  "count_correct m k =
    (case m k of None \<Rightarrow> m(k \<mapsto> (1, 0)) | Some (c, i) \<Rightarrow> m(k \<mapsto> (c + 1, i)))"

definition count_incorrect :: "(json \<rightharpoonup> nat \<times> nat) \<Rightarrow> json \<Rightarrow> (json \<rightharpoonup> nat \<times> nat)" where
  "count_incorrect m k =
    (case m k of None \<Rightarrow> m(k \<mapsto> (0, 1)) | Some (c, i) \<Rightarrow> m(k \<mapsto> (c, i + 1)))"

text \<open>
  Lines 91 to 101: the dictionary appended on a mismatch. Its values are computed in the
  order written, so a record without \<^verbatim>\<open>ticket_id\<close> raises here.
\<close>

definition mismatch_entry :: "nat \<Rightarrow> json \<Rightarrow> string \<Rightarrow> json \<Rightarrow> error + json" where
  "mismatch_entry line_num ticket expected_label actual_label =
    ebind (subscript ticket ''ticket_id'') (\<lambda>ticket_id.
    ebind (subscript3 ticket ''data'' ''investigation'' ''rotation_status'') (\<lambda>rotation_status.
    ebind (subscript3 ticket ''data'' ''repo_details'' ''type'') (\<lambda>repo_type.
    ebind (subscript3 ticket ''data'' ''investigation'' ''usage_evidence'') (\<lambda>usage.
    ebind (subscript3 ticket ''data'' ''repo_details'' ''criticality'') (\<lambda>criticality.
    ebind (subscript3 ticket ''data'' ''investigation'' ''similar_past_incidents'') (\<lambda>past_incidents.
    Inr (JObj [(''line'', JNum (int line_num)),
               (''ticket_id'', ticket_id),
               (''expected'', JStr expected_label),
               (''actual'', actual_label),
               (''rotation_status'', rotation_status),
               (''repo_type'', repo_type),
               (''usage'', usage),
               (''criticality'', criticality),
               (''past_incidents'', past_incidents)])))))))"

text \<open>Lines 82 to 102: the body of the loop, on the value \<^verbatim>\<open>json.loads\<close> returned.\<close>

definition validate_ticket :: "nat \<Rightarrow> json \<Rightarrow> results \<Rightarrow> error + results" where
  "validate_ticket line_num ticket res =
    (let res = res\<lparr>total_tickets := total_tickets res + 1\<rparr> in
     ebind (subscript ticket ''data'') (\<lambda>data.
     ebind (apply_decision_logic data) (\<lambda>expected_label.
     ebind (subscript ticket ''label'') (\<lambda>actual_label.
     ebind (py_lower actual_label) (\<lambda>actual_lower.
     if lower expected_label = actual_lower
     then Inr (res\<lparr>matches := matches res + 1,
                    by_label := count_correct (by_label res) actual_label\<rparr>)
     else ebind (mismatch_entry line_num ticket expected_label actual_label) (\<lambda>entry.
          Inr (res\<lparr>mismatches := mismatches res @ [entry],
                    by_label := count_incorrect (by_label res) actual_label\<rparr>)))))))"

text \<open>
  A line of the corpus file as the loop meets it: only white space (skipped), text that
  \<^verbatim>\<open>json.loads\<close> rejects, or text that it turns into a value.
\<close>

datatype corpus_line = Blank | Unparsable | Parsed json

text \<open>Lines 77 to 102: the loop over the numbered lines, the first one numbered 1.\<close>

fun validate_lines :: "nat \<Rightarrow> corpus_line list \<Rightarrow> results \<Rightarrow> error + results" where
  "validate_lines line_num [] res = Inr res"
| "validate_lines line_num (Blank # rest) res = validate_lines (Suc line_num) rest res"
| "validate_lines line_num (Unparsable # rest) res = Inl JSONDecodeError"
| "validate_lines line_num (Parsed ticket # rest) res =
     ebind (validate_ticket line_num ticket res) (validate_lines (Suc line_num) rest)"

definition validate_dataset :: "corpus_line list \<Rightarrow> error + results" where
  "validate_dataset file_lines =
    validate_lines 1 file_lines
      \<lparr>total_tickets = 0, matches = 0, mismatches = [], by_label = Map.empty\<rparr>"

text \<open>
  validate\_tickets.py, \<^verbatim>\<open>print_report\<close>, line 113: the accuracy printed for a report,
  guarded against a total of 0. The division is Python's float division; it is taken
  exactly here, which is what the float is when the matches equal the total.
\<close>

definition accuracy :: "results \<Rightarrow> real" where
  "accuracy res =
    (if total_tickets res > 0 then (real (matches res) / real (total_tickets res)) * 100 else 0)"

section \<open>The comment synthesizer\<close>

text \<open>
  A replacement field of an f-string: a string is inserted as it is, any other value
  through Python's \<^verbatim>\<open>str\<close>, which is taken as a parameter.
\<close>

definition fmt :: "(json \<Rightarrow> string) \<Rightarrow> json \<Rightarrow> string" where
  "fmt str_of v = (case v of JStr s \<Rightarrow> s | _ \<Rightarrow> str_of v)"

text \<open>\<^verbatim>\<open>sep.join(parts)\<close>.\<close>

fun join_with :: "string \<Rightarrow> string list \<Rightarrow> string" where
  "join_with sep [] = []"
| "join_with sep [x] = x"
| "join_with sep (x # y # ys) = x @ sep @ join_with sep (y # ys)"

text \<open>\<^verbatim>\<open>if c: reasons.append(s)\<close>, as the list of what was appended.\<close>

definition clause_if :: "bool \<Rightarrow> string \<Rightarrow> string list" where
  "clause_if c s = (if c then [s] else [])"

text \<open>
  fix\_tickets.py, \<^verbatim>\<open>generate_comment\<close>, lines 57 to 123. The context, the
  recommendation and the reasoning each begin with one newline, and the four parts are
  concatenated.
\<close>

definition generate_comment :: "(json \<Rightarrow> string) \<Rightarrow> json \<Rightarrow> string \<Rightarrow> error + string" where
  "generate_comment str_of data label =
    ebind (subscript data ''category'') (\<lambda>category.
    ebind (subscript2 data ''repo_details'' ''type'') (\<lambda>repo_type.
    ebind (subscript2 data ''investigation'' ''usage_evidence'') (\<lambda>usage.
    ebind (subscript2 data ''investigation'' ''rotation_status'') (\<lambda>status.
    ebind (subscript2 data ''repo_details'' ''criticality'') (\<lambda>criticality.
    ebind (subscript2 data ''detection'' ''source'') (\<lambda>detection.
    ebind (subscript2 data ''repo_details'' ''exposure'') (\<lambda>exposure.
    ebind (subscript2 data ''investigation'' ''impact_radius'') (\<lambda>impact.
    ebind (subscript2 data ''investigation'' ''similar_past_incidents'') (\<lambda>past_incidents.
    let headline = ''Automated analysis: '' @ fmt str_of category @ '' detected in ''
          @ fmt str_of repo_type @ ''.'';
        context = ''\<newline>Context:\<newline>- Usage: '' @ fmt str_of usage
          @ ''\<newline>- Status: '' @ fmt str_of status
          @ ''\<newline>- Criticality: '' @ fmt str_of criticality
          @ ''\<newline>- Detection Source: '' @ fmt str_of detection;
        recommendation = ''\<newline>Recommendation: Mark as '' @ label @ ''.''
    in
    ebind
      (if label = ''Mitigated'' then
         (if status = JStr ''Revoked''
          then Inr ''\<newline>Reasoning: Credential has been revoked and is no longer valid. No further action required. Verify rotation in key management system.''
          else Inr ''\<newline>Reasoning: Credential has already been rotated; new key is in place. No further action required. Verify rotation in key management system.'')
       else if label = ''False Positive'' then
         ebind (or_else (py_in ''Test'' repo_type) (py_in ''QA'' repo_type)) (\<lambda>is_test.
         Inr (''\<newline>Reasoning: '' @ join_with '' ''
           (clause_if (status = JStr ''Invalid'')
              ''Credential validation failed - not a valid secret format.''
            @ clause_if (past_incidents = JStr ''Frequent False Positives in this file'')
              ''File has history of false positive detections.''
            @ clause_if is_test ''Test fixture or example data - not a real credential.''
            @ [''No remediation required. Consider adding to allowlist.''])))
       else if label = ''Suppressed'' then
         ebind (py_in ''No usage found'' usage) (\<lambda>no_usage.
         Inr (''\<newline>Reasoning: '' @ join_with '' ''
           ([''Repository is archived/deprecated with no active deployments.'']
            @ clause_if no_usage ''No usage detected in 90+ days.''
            @ [''Risk accepted per security policy. Document and close.''])))
       else if label = ''Confirmed'' then
         ebind (py_in ''Active usage'' usage) (\<lambda>active.
         ebind (py_in ''Public'' exposure) (\<lambda>public.
         ebind (py_in ''P0'' criticality) (\<lambda>p0.
         Inr (''\<newline>Reasoning: '' @ join_with '' ''
           ([''High-confidence active threat detected.'']
            @ clause_if active
              ''Recent usage logs confirm the credential is actively being used.''
            @ clause_if public ''Public exposure increases risk of credential harvesting.''
            @ clause_if p0
              ''Repository handles customer data - immediate rotation required.''
            @ [''Impact radius: '' @ fmt str_of impact
                 @ ''. Initiate incident response protocol.''])))))
       else
         ebind (or_else (py_in ''Prod'' repo_type) (py_in ''Monolith'' repo_type)) (\<lambda>prod.
         Inr (''\<newline>Reasoning: '' @ join_with '' ''
           ([''Valid credential requiring remediation.'',
             ''Credential is still active and has not been rotated.'']
            @ clause_if prod (''Found in '' @ fmt str_of repo_type
                 @ '' - prioritize based on '' @ fmt str_of criticality @ ''.'')
            @ [''Assign to repository owner for rotation.'']))))
      (\<lambda>reasoning. Inr (headline @ context @ recommendation @ reasoning)))))))))))"

text \<open>generate\_tickets.py, \<^verbatim>\<open>generate_reasoning\<close>, lines 253 to 308.\<close>

definition generate_reasoning :: "(json \<Rightarrow> string) \<Rightarrow> json \<Rightarrow> string \<Rightarrow> error + string" where
  "generate_reasoning str_of data label =
    ebind (subscript2 data ''repo_details'' ''type'') (\<lambda>repo_type.
    ebind (subscript2 data ''repo_details'' ''exposure'') (\<lambda>exposure.
    ebind (subscript2 data ''repo_details'' ''criticality'') (\<lambda>criticality.
    ebind (subscript2 data ''investigation'' ''usage_evidence'') (\<lambda>usage.
    ebind (subscript2 data ''investigation'' ''rotation_status'') (\<lambda>rotation.
    ebind (subscript2 data ''investigation'' ''similar_past_incidents'') (\<lambda>past_incidents.
    ebind (subscript2 data ''investigation'' ''impact_radius'') (\<lambda>impact.
    Inr (join_with '' ''
      (if label = ''Mitigated'' then
         (if rotation = JStr ''Already Rotated''
          then [''Credential has already been rotated; new key is in place.'']
          else if rotation = JStr ''Revoked''
          then [''Credential has been revoked and is no longer valid.'']
          else [])
         @ [''No further action required. Verify rotation in key management system.'']
       else if label = ''Confirmed'' then
         [''High-confidence active threat detected.'']
         @ clause_if (usage = JStr ''Active usage in CloudTrail/Logs (Last 1h)'')
             ''Recent usage logs confirm the credential is actively being used.''
         @ clause_if (exposure = JStr ''Public (Open Source)'')
             ''Public exposure increases risk of credential harvesting.''
         @ clause_if (criticality = JStr ''Critical (P0 - Customer Data)'')
             ''Repository handles customer data - immediate rotation required.''
         @ [''Impact radius: '' @ fmt str_of impact @ ''. Initiate incident response protocol.'']
       else if label = ''Open'' then
         [''Valid credential requiring remediation.'']
         @ clause_if (rotation = JStr ''Active/Valid'')
             ''Credential is still active and has not been rotated.''
         @ clause_if (repo_type \<in> set [JStr ''Prod Microservice'', JStr ''Monolith Core''])
             (''Found in '' @ fmt str_of repo_type @ '' - prioritize based on ''
                @ fmt str_of criticality @ ''.'')
         @ [''Assign to repository owner for rotation.'']
       else if label = ''Suppressed'' then
         clause_if (repo_type = JStr ''Deprecated/Archived'')
           ''Repository is archived/deprecated with no active deployments.''
         @ clause_if (usage = JStr ''No usage found (90d+)'') ''No usage detected in 90+ days.''
         @ clause_if (repo_type = JStr ''Test/QA Suite'')
             ''Test environment with no production impact.''
         @ [''Risk accepted per security policy. Document and close.'']
       else if label = ''False Positive'' then
         clause_if (rotation = JStr ''Invalid'')
           ''Credential validation failed - not a valid secret format.''
         @ clause_if (past_incidents = JStr ''Frequent False Positives in this file'')
             ''File has history of false positive detections.''
         @ clause_if (repo_type = JStr ''Test/QA Suite'')
             ''Test fixture or example data - not a real credential.''
         @ [''No remediation required. Consider adding to allowlist.'']
       else [])))))))))"

text \<open>
  generate\_tickets.py, \<^verbatim>\<open>generate_ideal_comment\<close>, lines 311 to 331: one template,
  with an empty line between its parts.
\<close>

definition generate_ideal_comment :: "(json \<Rightarrow> string) \<Rightarrow> json \<Rightarrow> string \<Rightarrow> error + string" where
  "generate_ideal_comment str_of data label =
    ebind (subscript data ''category'') (\<lambda>vuln_type.
    ebind (subscript2 data ''repo_details'' ''type'') (\<lambda>repo_type.
    ebind (subscript2 data ''investigation'' ''usage_evidence'') (\<lambda>usage.
    ebind (subscript2 data ''investigation'' ''rotation_status'') (\<lambda>rotation.
    ebind (generate_reasoning str_of data label) (\<lambda>reasoning.
    ebind (subscript2 data ''repo_details'' ''criticality'') (\<lambda>criticality.
    ebind (subscript2 data ''detection'' ''source'') (\<lambda>source.
    Inr (''Automated analysis: '' @ fmt str_of vuln_type @ '' detected in ''
           @ fmt str_of repo_type @ ''.''
         @ ''\<newline>\<newline>Context:\<newline>- Usage: '' @ fmt str_of usage
         @ ''\<newline>- Status: '' @ fmt str_of rotation
         @ ''\<newline>- Criticality: '' @ fmt str_of criticality
         @ ''\<newline>- Detection Source: '' @ fmt str_of source
         @ ''\<newline>\<newline>Recommendation: Mark as '' @ label @ ''.''
         @ ''\<newline>\<newline>Reasoning: '' @ reasoning))))))))"

section \<open>What the report should hold\<close>

text \<open>The value of a read that did not raise.\<close>

fun ok :: "error + 'a \<Rightarrow> 'a option" where
  "ok (Inr x) = Some x"
| "ok (Inl e) = None"

text \<open>
  The diagnostic record section 4.3 asks for, for the record at line \<open>n\<close>: none when the
  recomputed label and the recorded one are equal up to letter case, and otherwise the
  line, the ticket id, the expected and the recorded label and the five diagnostic facts.
\<close>

definition diagnostic :: "nat \<Rightarrow> json \<Rightarrow> json option" where
  "diagnostic n t =
    Option.bind (ok (subscript t ''data'')) (\<lambda>data.
    Option.bind (ok (apply_decision_logic data)) (\<lambda>expected.
    Option.bind (ok (subscript t ''label'')) (\<lambda>actual.
    Option.bind (ok (py_lower actual)) (\<lambda>actual_lower.
    if lower expected = actual_lower then None
    else
    Option.bind (ok (subscript t ''ticket_id'')) (\<lambda>tid.
    Option.bind (ok (subscript2 data ''investigation'' ''rotation_status'')) (\<lambda>rs.
    Option.bind (ok (subscript2 data ''repo_details'' ''type'')) (\<lambda>rt.
    Option.bind (ok (subscript2 data ''investigation'' ''usage_evidence'')) (\<lambda>ue.
    Option.bind (ok (subscript2 data ''repo_details'' ''criticality'')) (\<lambda>cr.
    Option.bind (ok (subscript2 data ''investigation'' ''similar_past_incidents'')) (\<lambda>pinc.
    Some (JObj [(''line'', JNum (int n)), (''ticket_id'', tid), (''expected'', JStr expected),
                (''actual'', actual), (''rotation_status'', rs), (''repo_type'', rt),
                (''usage'', ue), (''criticality'', cr), (''past_incidents'', pinc)])))))))))))"

fun line_diagnostic :: "nat \<times> corpus_line \<Rightarrow> json option" where
  "line_diagnostic (n, Parsed t) = diagnostic n t"
| "line_diagnostic (n, _) = None"

text \<open>The line number a mismatch entry carries.\<close>

definition entry_line :: "json \<Rightarrow> int" where
  "entry_line m = (case subscript m ''line'' of Inr (JNum n) \<Rightarrow> n | _ \<Rightarrow> 0)"

text \<open>
  A line of a corpus whose recorded labels are the engine's: blank, or a record whose
  \<^verbatim>\<open>label\<close> is the string the engine returns on its \<^verbatim>\<open>data\<close>.
\<close>

fun consistent :: "corpus_line \<Rightarrow> bool" where
  "consistent Blank = True"
| "consistent Unparsable = False"
| "consistent (Parsed t) =
     (case subscript t ''data'' of
        Inl e \<Rightarrow> False
      | Inr data \<Rightarrow>
          (case apply_decision_logic data of
             Inl e \<Rightarrow> False
           | Inr expected \<Rightarrow> subscript t ''label'' = Inr (JStr expected)))"

text \<open>A record with its recorded label replaced, everything else kept.\<close>

fun relabel :: "json \<Rightarrow> string \<Rightarrow> json" where
  "relabel (JObj kvs) l = JObj (AList.update ''label'' (JStr l) kvs)"
| "relabel t l = t"

text \<open>
  The exception raised by the reads the loop body makes on every record (\<^verbatim>\<open>data\<close>,
  the six facts of the engine, \<^verbatim>\<open>label\<close> and its \<^verbatim>\<open>lower\<close>), if one is raised; and the
  same for a line, where text that is not JSON raises in \<^verbatim>\<open>json.loads\<close>.
\<close>

definition record_error :: "json \<Rightarrow> error option" where
  "record_error t =
    (case ebind (subscript t ''data'') (\<lambda>data.
          ebind (apply_decision_logic data) (\<lambda>expected.
          ebind (subscript t ''label'') (\<lambda>actual. py_lower actual))) of
       Inl e \<Rightarrow> Some e
     | Inr l \<Rightarrow> None)"

fun line_error :: "corpus_line \<Rightarrow> error option" where
  "line_error Blank = None"
| "line_error Unparsable = Some JSONDecodeError"
| "line_error (Parsed t) = record_error t"

text \<open>
  A line the loop can process whatever the verdict on it: blank, or a record on which
  the reads above raise nothing and which has a \<^verbatim>\<open>ticket_id\<close>, the one further key
  read when the labels differ.
\<close>

fun well_formed :: "corpus_line \<Rightarrow> bool" where
  "well_formed Blank = True"
| "well_formed Unparsable = False"
| "well_formed (Parsed t) = (record_error t = None \<and> ok (subscript t ''ticket_id'') \<noteq> None)"

text \<open>
  A bundle over the generator's value tables, with the four fields the examples vary
  left open: public exposure, P0 criticality.
\<close>

definition sample_bundle :: "string \<Rightarrow> string \<Rightarrow> string \<Rightarrow> string \<Rightarrow> FactBundle" where
  "sample_bundle repo usage rotation past =
    \<lparr>category = ''AWS Secret Access Key'', repoType = repo,
     exposure = ''Public (Open Source)'', criticality = ''Critical (P0 - Customer Data)'',
     detectionSource = ''TruffleHog'', commitAge = ''Fresh (< 1 hour)'',
     usageEvidence = usage, rotationStatus = rotation,
     impactRadius = ''Org Wide'', similarPastIncidents = past\<rparr>"

definition sample_data :: "string \<Rightarrow> string \<Rightarrow> string \<Rightarrow> string \<Rightarrow> json" where
  "sample_data repo usage rotation past =
    ticket_data ''wJalrXUtnFEMI/K7...'' (sample_bundle repo usage rotation past)"

text \<open>
  generate\_tickets.py, \<^verbatim>\<open>generate_ticket\<close>, lines 361 to 366: a ticket record.
\<close>

definition ticket_record :: "string \<Rightarrow> json \<Rightarrow> string \<Rightarrow> string \<Rightarrow> json" where
  "ticket_record tid data label comment =
    JObj [(''ticket_id'', JStr tid), (''data'', data), (''label'', JStr label),
          (''ideal_llm_comment'', JStr comment)]"

text \<open>
  Records for the examples: two tickets with their recorded label left open, a record
  with no \<^verbatim>\<open>data\<close>, and a record that has the six facts the engine reads and a label
  but no ticket id, category, snippet, detection block or impact radius.
\<close>

definition confirmed_ticket :: "string \<Rightarrow> json" where
  "confirmed_ticket label =
    ticket_record ''SEC-10001''
      (sample_data ''Prod Microservice'' ''Active usage in CloudTrail/Logs (Last 1h)''
         ''Active/Valid'' ''None'')
      label ''''"

definition mitigated_ticket :: "string \<Rightarrow> json" where
  "mitigated_ticket label =
    ticket_record ''SEC-10002''
      (sample_data ''Internal Tooling'' ''Unable to verify'' ''Revoked'' ''None'')
      label ''''"

definition record_without_data :: json where
  "record_without_data = JObj [(''ticket_id'', JStr ''SEC-10003''), (''label'', JStr ''Open'')]"

definition record_without_category :: json where
  "record_without_category =
    JObj [(''data'',
           JObj [(''repo_details'', JObj [(''type'', JStr ''Internal Tooling''),
                                         (''exposure'', JStr ''Private (Internal)''),
                                         (''criticality'', JStr ''Low (P3 - Sandbox)'')]),
                 (''investigation'', JObj [(''usage_evidence'', JStr ''Unable to verify''),
                                          (''rotation_status'', JStr ''Revoked''),
                                          (''similar_past_incidents'', JStr ''None'')])]),
          (''label'', JStr ''Mitigated'')]"

text \<open>
  Two corpora: one of four lines, whose first label differs from the engine's in letter
  case only and whose last two labels are wrong, with the report expected for it; and one
  of three lines whose labels are the engine's.
\<close>

definition sample_corpus :: "corpus_line list" where
  "sample_corpus =
    [Parsed (confirmed_ticket ''CONFIRMED''), Blank, Parsed (mitigated_ticket ''Open''),
     Parsed (confirmed_ticket ''Suppressed'')]"

definition sample_report :: results where
  "sample_report =
    \<lparr>total_tickets = 3, matches = 1,
     mismatches =
       [JObj [(''line'', JNum 3), (''ticket_id'', JStr ''SEC-10002''),
          (''expected'', JStr ''Mitigated''), (''actual'', JStr ''Open''),
          (''rotation_status'', JStr ''Revoked''), (''repo_type'', JStr ''Internal Tooling''),
          (''usage'', JStr ''Unable to verify''),
          (''criticality'', JStr ''Critical (P0 - Customer Data)''),
          (''past_incidents'', JStr ''None'')],
        JObj [(''line'', JNum 4), (''ticket_id'', JStr ''SEC-10001''),
          (''expected'', JStr ''Confirmed''), (''actual'', JStr ''Suppressed''),
          (''rotation_status'', JStr ''Active/Valid''), (''repo_type'', JStr ''Prod Microservice''),
          (''usage'', JStr ''Active usage in CloudTrail/Logs (Last 1h)''),
          (''criticality'', JStr ''Critical (P0 - Customer Data)''),
          (''past_incidents'', JStr ''None'')]],
     by_label = [JStr ''CONFIRMED'' \<mapsto> (1, 0), JStr ''Open'' \<mapsto> (0, 1),
                 JStr ''Suppressed'' \<mapsto> (0, 1)]\<rparr>"

definition consistent_corpus :: "corpus_line list" where
  "consistent_corpus =
    [Parsed (confirmed_ticket ''Confirmed''), Blank, Parsed (mitigated_ticket ''Mitigated'')]"

text \<open>
  The fact dictionary of the first scenario of section 8: a live AWS key in a public,
  P0 production service, with active usage.
\<close>

definition scenario_data :: json where
  "scenario_data = sample_data ''Prod Microservice'' ''Active usage in CloudTrail/Logs (Last 1h)''
     ''Active/Valid'' ''None''"

section \<open>Basic facts\<close>

lemma ebind_simps:
  "ebind (Inl e) f = Inl e"
  "ebind (Inr x) f = f x"
  by (simp_all add: ebind_def)

lemma or_else_Inr: "or_else (Inr a) (Inr b) = Inr (a \<or> b)"
  by (cases a) (simp_all add: or_else_def)

lemma str_contains_iff: "str_contains n h \<longleftrightarrow> (\<exists>p s. h = p @ n @ s)"
proof (induction h)
  case Nil
  then show ?case by auto
next
  case (Cons c cs)
  show ?case
  proof
    assume "str_contains n (c # cs)"
    then consider "prefix n (c # cs)" | "str_contains n cs" by auto
    then show "\<exists>p s. c # cs = p @ n @ s"
    proof cases
      case 1
      then obtain s where "c # cs = n @ s" by (auto simp: prefix_def)
      then have "c # cs = [] @ n @ s" by simp
      then show ?thesis by blast
    next
      case 2
      with Cons obtain p s where "cs = p @ n @ s" by blast
      then have "c # cs = (c # p) @ n @ s" by simp
      then show ?thesis by blast
    qed
  next
    assume "\<exists>p s. c # cs = p @ n @ s"
    then obtain p s where ps: "c # cs = p @ n @ s" by blast
    show "str_contains n (c # cs)"
    proof (cases p)
      case Nil
      with ps have "prefix n (c # cs)" by (simp add: prefix_def)
      then show ?thesis by simp
    next
      case (Cons a p')
      with ps have "cs = p' @ n @ s" by simp
      with Cons.IH have "str_contains n cs" by blast
      then show ?thesis by simp
    qed
  qed
qed

text \<open>Whether a membership test raises depends on the container alone.\<close>

lemma py_in_error_indep: "py_in a v = Inl e \<Longrightarrow> py_in b v = Inl e"
  by (cases v) auto

lemma py_in_cases:
  obtains (err) "\<And>a. py_in a v = Inl TypeError" | (ok) "\<And>a. \<exists>b. py_in a v = Inr b"
  by (cases v) auto

lemma or_else_in_total:
  "or_else (py_in a v) (py_in b v) = Inr r \<Longrightarrow> \<exists>r'. or_else (py_in c v) (py_in d v) = Inr r'"
  by (cases v) (auto simp: or_else_def split: bool.splits)

section \<open>The two copies of the engine agree\<close>

lemma decision_rules_eq:
  "fix_decision_rules rs rt ue cr ex pinc = decision_rules rs rt ue cr ex pinc"
proof (cases "or_else (py_in ''Deprecated'' rt) (py_in ''Archived'' rt)")
  case (Inl e)
  then show ?thesis by (simp add: decision_rules_def fix_decision_rules_def ebind_simps)
next
  case (Inr r)
  from or_else_in_total [OF this]
  obtain r' where "or_else (py_in ''Prod'' rt) (py_in ''Monolith'' rt) = Inr r'" by blast
  then show ?thesis
    by (simp add: decision_rules_def fix_decision_rules_def ebind_def split: sum.splits)
qed

lemma fix_apply_eq: "fix_apply_decision_logic data = apply_decision_logic data"
  by (simp add: fix_apply_decision_logic_def apply_decision_logic_def decision_rules_eq)

text \<open>
  Claim C10. The engine of validate\_tickets.py and the engine of fix\_tickets.py are
  extensionally equal: on every value passed as the fact dictionary they return the same
  label, and they raise the same exception where they raise.
\<close>

theorem engines_agree: "fix_apply_decision_logic data = apply_decision_logic data"
  by (rule fix_apply_eq)

section \<open>The engine and the rule list\<close>

lemma apply_facts:
  "has_facts data rs rt ue cr ex pinc \<Longrightarrow> apply_decision_logic data = decision_rules rs rt ue cr ex pinc"
  by (simp add: has_facts_def apply_decision_logic_def ebind_simps)

lemma has_facts_ticket_data:
  "holds_bundle (ticket_data snippet b) b"
  by (simp add: holds_bundle_def has_facts_def ticket_data_def subscript2_def ebind_simps)

lemma decision_rules_strings:
  "decision_rules (JStr (rotationStatus b)) (JStr (repoType b)) (JStr (usageEvidence b))
     (JStr (criticality b)) (JStr (exposure b)) (JStr (similarPastIncidents b))
   = Inr (label_name (Evaluate b))"
  by (simp add: decision_rules_def Evaluate_def rule_list_def ebind_simps or_else_Inr
      rule1_def rule2_def rule3_def rule4_def rule5_def rule6_def rule7_def
      isActiveUsage_def isHighCriticality_def isPublic_def isTestSuite_def isArchived_def)

lemma apply_holds_bundle:
  "holds_bundle data b \<Longrightarrow> apply_decision_logic data = Inr (label_name (Evaluate b))"
  unfolding holds_bundle_def by (simp add: apply_facts decision_rules_strings)

text \<open>
  Claim C1. On the fact dictionary of every bundle, both copies of the engine return the
  label of the first rule of the ordered list 1 to 7 of section 4.1 whose predicate holds,
  and Open, the fallback of rule 8, when none does.
\<close>

theorem engine_is_rule_list:
  "holds_bundle data b \<Longrightarrow>
     apply_decision_logic data = Inr (label_name (first_match rule_list b))
   \<and> fix_apply_decision_logic data = Inr (label_name (first_match rule_list b))"
  using apply_holds_bundle [of data b] by (simp add: fix_apply_eq Evaluate_def)

theorem engine_is_rule_list_witness:
  "holds_bundle (sample_data ''Prod Microservice'' ''Active usage in CloudTrail/Logs (Last 1h)''
      ''Active/Valid'' ''None'')
     (sample_bundle ''Prod Microservice'' ''Active usage in CloudTrail/Logs (Last 1h)''
      ''Active/Valid'' ''None'')
   \<and> apply_decision_logic (sample_data ''Prod Microservice''
        ''Active usage in CloudTrail/Logs (Last 1h)'' ''Active/Valid'' ''None'') = Inr ''Confirmed''
   \<and> fix_apply_decision_logic (sample_data ''Prod Microservice''
        ''Active usage in CloudTrail/Logs (Last 1h)'' ''Active/Valid'' ''None'') = Inr ''Confirmed''"
proof -
  let ?b = "sample_bundle ''Prod Microservice'' ''Active usage in CloudTrail/Logs (Last 1h)''
      ''Active/Valid'' ''None''"
  let ?d = "sample_data ''Prod Microservice'' ''Active usage in CloudTrail/Logs (Last 1h)''
      ''Active/Valid'' ''None''"
  have h: "holds_bundle ?d ?b"
    unfolding sample_data_def by (rule has_facts_ticket_data)
  have l: "label_name (first_match rule_list ?b) = ''Confirmed''"
    by (simp add: rule_list_def sample_bundle_def rule1_def rule2_def rule3_def rule4_def
        rule5_def isActiveUsage_def isTestSuite_def isArchived_def)
  from engine_is_rule_list [OF h] h l show ?thesis by simp
qed

section \<open>Precedence of the rules\<close>

lemma sample_data_facts:
  "has_facts (sample_data repo usage rotation past) (JStr rotation) (JStr repo) (JStr usage)
     (JStr ''Critical (P0 - Customer Data)'') (JStr ''Public (Open Source)'') (JStr past)"
  using has_facts_ticket_data [of "''wJalrXUtnFEMI/K7...''" "sample_bundle repo usage rotation past"]
  by (simp add: sample_data_def holds_bundle_def sample_bundle_def)

text \<open>
  Claim C4. When the fact dictionary holds the six facts and the rotation status is
  Revoked or Already Rotated, both copies of the engine return Mitigated, whatever the
  other five values are (strings or not).
\<close>

theorem mitigated_first:
  "has_facts data rs rt ue cr ex pinc \<Longrightarrow> rs = JStr ''Revoked'' \<or> rs = JStr ''Already Rotated'' \<Longrightarrow>
     apply_decision_logic data = Inr ''Mitigated''
   \<and> fix_apply_decision_logic data = Inr ''Mitigated''"
  by (auto simp: fix_apply_eq apply_facts decision_rules_def)

theorem mitigated_first_witness:
  "has_facts (sample_data ''Prod Microservice'' ''Active usage in CloudTrail/Logs (Last 1h)''
       ''Revoked'' ''None'')
     (JStr ''Revoked'') (JStr ''Prod Microservice'')
     (JStr ''Active usage in CloudTrail/Logs (Last 1h)'') (JStr ''Critical (P0 - Customer Data)'')
     (JStr ''Public (Open Source)'') (JStr ''None'')
   \<and> apply_decision_logic (sample_data ''Prod Microservice''
       ''Active usage in CloudTrail/Logs (Last 1h)'' ''Revoked'' ''None'') = Inr ''Mitigated''
   \<and> fix_apply_decision_logic (sample_data ''Prod Microservice''
       ''Active usage in CloudTrail/Logs (Last 1h)'' ''Revoked'' ''None'') = Inr ''Mitigated''"
proof -
  note h = sample_data_facts [of "''Prod Microservice''"
      "''Active usage in CloudTrail/Logs (Last 1h)''" "''Revoked''" "''None''"]
  from mitigated_first [OF h] h show ?thesis by simp
qed

text \<open>
  Claim C5. When the repo type is a string containing Deprecated or Archived and the
  rotation status is none of Revoked, Already Rotated and Invalid, the engine returns
  Suppressed, whatever the usage evidence and the other values are; so also for an
  Active/Valid credential with active usage.
\<close>

theorem archived_suppressed:
  "has_facts data rs (JStr rt) ue cr ex pinc \<Longrightarrow>
   str_contains ''Deprecated'' rt \<or> str_contains ''Archived'' rt \<Longrightarrow>
   rs \<noteq> JStr ''Revoked'' \<Longrightarrow> rs \<noteq> JStr ''Already Rotated'' \<Longrightarrow> rs \<noteq> JStr ''Invalid'' \<Longrightarrow>
     apply_decision_logic data = Inr ''Suppressed''"
  by (auto simp: apply_facts decision_rules_def or_else_Inr ebind_simps)

theorem archived_suppressed_witness:
  "has_facts (sample_data ''Deprecated/Archived'' ''Active usage in CloudTrail/Logs (Last 1h)''
       ''Active/Valid'' ''None'')
     (JStr ''Active/Valid'') (JStr ''Deprecated/Archived'')
     (JStr ''Active usage in CloudTrail/Logs (Last 1h)'') (JStr ''Critical (P0 - Customer Data)'')
     (JStr ''Public (Open Source)'') (JStr ''None'')
   \<and> str_contains ''Deprecated'' ''Deprecated/Archived''
   \<and> apply_decision_logic (sample_data ''Deprecated/Archived''
       ''Active usage in CloudTrail/Logs (Last 1h)'' ''Active/Valid'' ''None'') = Inr ''Suppressed''"
proof -
  note h = sample_data_facts [of "''Deprecated/Archived''"
      "''Active usage in CloudTrail/Logs (Last 1h)''" "''Active/Valid''" "''None''"]
  have c: "str_contains ''Deprecated'' ''Deprecated/Archived''" by simp
  from archived_suppressed [OF h] h c show ?thesis by simp
qed

text \<open>
  Claim C6, as stated, fails: a Test/QA Suite bundle with frequent false positives in its
  history and active usage is not always labelled Confirmed. With a revoked credential
  rule 1 answers first and the label is Mitigated.
\<close>

theorem live_test_suite_counterexample:
  "has_facts (sample_data ''Test/QA Suite'' ''Active usage in CloudTrail/Logs (Last 1h)''
       ''Revoked'' ''Frequent False Positives in this file'')
     (JStr ''Revoked'') (JStr ''Test/QA Suite'')
     (JStr ''Active usage in CloudTrail/Logs (Last 1h)'') (JStr ''Critical (P0 - Customer Data)'')
     (JStr ''Public (Open Source)'') (JStr ''Frequent False Positives in this file'')
   \<and> str_contains ''Active usage'' ''Active usage in CloudTrail/Logs (Last 1h)''
   \<and> apply_decision_logic (sample_data ''Test/QA Suite''
       ''Active usage in CloudTrail/Logs (Last 1h)'' ''Revoked''
       ''Frequent False Positives in this file'') = Inr ''Mitigated''
   \<and> apply_decision_logic (sample_data ''Test/QA Suite''
       ''Active usage in CloudTrail/Logs (Last 1h)'' ''Revoked''
       ''Frequent False Positives in this file'') \<noteq> Inr ''Confirmed''"
proof -
  note h = sample_data_facts [of "''Test/QA Suite''"
      "''Active usage in CloudTrail/Logs (Last 1h)''" "''Revoked''"
      "''Frequent False Positives in this file''"]
  have c: "str_contains ''Active usage'' ''Active usage in CloudTrail/Logs (Last 1h)''" by simp
  have "apply_decision_logic (sample_data ''Test/QA Suite''
       ''Active usage in CloudTrail/Logs (Last 1h)'' ''Revoked''
       ''Frequent False Positives in this file'') = Inr ''Mitigated''"
    by (simp add: apply_facts [OF h] decision_rules_def)
  with h c show ?thesis by simp
qed

text \<open>
  Claim C6, amended. For a bundle of strings with repo type exactly Test/QA Suite,
  frequent false positives in its history, active usage and rotation status Active/Valid,
  rule 4 does not apply, and both copies of the engine return Confirmed.
\<close>

theorem live_test_suite_confirmed:
  "holds_bundle data b \<Longrightarrow> repoType b = ''Test/QA Suite'' \<Longrightarrow>
   similarPastIncidents b = ''Frequent False Positives in this file'' \<Longrightarrow>
   str_contains ''Active usage'' (usageEvidence b) \<Longrightarrow> rotationStatus b = ''Active/Valid'' \<Longrightarrow>
     \<not> rule4 b
   \<and> apply_decision_logic data = Inr ''Confirmed''
   \<and> fix_apply_decision_logic data = Inr ''Confirmed''"
  by (simp add: fix_apply_eq apply_holds_bundle Evaluate_def rule_list_def rule1_def rule2_def
      rule3_def rule4_def rule5_def isActiveUsage_def isTestSuite_def isArchived_def)

theorem live_test_suite_confirmed_witness:
  "holds_bundle (sample_data ''Test/QA Suite'' ''Active usage in CloudTrail/Logs (Last 1h)''
       ''Active/Valid'' ''Frequent False Positives in this file'')
     (sample_bundle ''Test/QA Suite'' ''Active usage in CloudTrail/Logs (Last 1h)''
       ''Active/Valid'' ''Frequent False Positives in this file'')
   \<and> str_contains ''Active usage'' ''Active usage in CloudTrail/Logs (Last 1h)''
   \<and> apply_decision_logic (sample_data ''Test/QA Suite''
       ''Active usage in CloudTrail/Logs (Last 1h)'' ''Active/Valid''
       ''Frequent False Positives in this file'') = Inr ''Confirmed''
   \<and> fix_apply_decision_logic (sample_data ''Test/QA Suite''
       ''Active usage in CloudTrail/Logs (Last 1h)'' ''Active/Valid''
       ''Frequent False Positives in this file'') = Inr ''Confirmed''"
proof -
  let ?b = "sample_bundle ''Test/QA Suite'' ''Active usage in CloudTrail/Logs (Last 1h)''
       ''Active/Valid'' ''Frequent False Positives in this file''"
  have h: "holds_bundle (sample_data ''Test/QA Suite''
       ''Active usage in CloudTrail/Logs (Last 1h)'' ''Active/Valid''
       ''Frequent False Positives in this file'') ?b"
    unfolding sample_data_def by (rule has_facts_ticket_data)
  have c: "str_contains ''Active usage'' ''Active usage in CloudTrail/Logs (Last 1h)''" by simp
  have f: "repoType ?b = ''Test/QA Suite''"
    "similarPastIncidents ?b = ''Frequent False Positives in this file''"
    "usageEvidence ?b = ''Active usage in CloudTrail/Logs (Last 1h)''"
    "rotationStatus ?b = ''Active/Valid''"
    by (simp_all add: sample_bundle_def)
  from live_test_suite_confirmed [OF h f(1) f(2) _ f(4)] f(3) c h show ?thesis by simp
qed

text \<open>
  Claim C7. On the fact dictionary of a bundle whose six fields are strings, whatever the
  strings are, the engine raises nothing and returns one of the five labels; and a
  bundle that none of rules 1 to 7 matches, as one with an unknown rotation status and no
  archived or test-suite repo type, gets Open.
\<close>

theorem engine_total:
  "holds_bundle data b \<Longrightarrow>
     apply_decision_logic data \<in> Inr ` set canonical_labels
   \<and> ((\<not> rule1 b \<and> \<not> rule2 b \<and> \<not> rule3 b \<and> \<not> rule4 b \<and> \<not> rule5 b \<and> \<not> rule6 b \<and> \<not> rule7 b)
        \<longrightarrow> apply_decision_logic data = Inr ''Open'')"
proof -
  assume h: "holds_bundle data b"
  have "label_name l \<in> set canonical_labels" for l
    by (cases l) (simp_all add: canonical_labels_def)
  then have "apply_decision_logic data \<in> Inr ` set canonical_labels"
    by (simp add: apply_holds_bundle [OF h])
  moreover have "apply_decision_logic data = Inr ''Open''"
    if "\<not> rule1 b \<and> \<not> rule2 b \<and> \<not> rule3 b \<and> \<not> rule4 b \<and> \<not> rule5 b \<and> \<not> rule6 b \<and> \<not> rule7 b"
    using that by (simp add: apply_holds_bundle [OF h] Evaluate_def rule_list_def)
  ultimately show ?thesis by blast
qed

theorem engine_total_witness:
  "holds_bundle (sample_data ''Internal Tooling'' ''Unable to verify'' ''Expired'' ''None'')
     (sample_bundle ''Internal Tooling'' ''Unable to verify'' ''Expired'' ''None'')
   \<and> \<not> rule1 (sample_bundle ''Internal Tooling'' ''Unable to verify'' ''Expired'' ''None'')
   \<and> \<not> rule2 (sample_bundle ''Internal Tooling'' ''Unable to verify'' ''Expired'' ''None'')
   \<and> \<not> rule3 (sample_bundle ''Internal Tooling'' ''Unable to verify'' ''Expired'' ''None'')
   \<and> \<not> rule4 (sample_bundle ''Internal Tooling'' ''Unable to verify'' ''Expired'' ''None'')
   \<and> \<not> rule5 (sample_bundle ''Internal Tooling'' ''Unable to verify'' ''Expired'' ''None'')
   \<and> \<not> rule6 (sample_bundle ''Internal Tooling'' ''Unable to verify'' ''Expired'' ''None'')
   \<and> \<not> rule7 (sample_bundle ''Internal Tooling'' ''Unable to verify'' ''Expired'' ''None'')
   \<and> apply_decision_logic (sample_data ''Internal Tooling'' ''Unable to verify'' ''Expired''
        ''None'') = Inr ''Open''"
proof -
  let ?b = "sample_bundle ''Internal Tooling'' ''Unable to verify'' ''Expired'' ''None''"
  have h: "holds_bundle (sample_data ''Internal Tooling'' ''Unable to verify'' ''Expired''
      ''None'') ?b"
    unfolding sample_data_def by (rule has_facts_ticket_data)
  have r: "\<not> rule1 ?b" "\<not> rule2 ?b" "\<not> rule3 ?b" "\<not> rule4 ?b" "\<not> rule5 ?b" "\<not> rule6 ?b"
    "\<not> rule7 ?b"
    by (simp_all add: sample_bundle_def rule1_def rule2_def rule3_def rule4_def rule5_def
        rule6_def rule7_def isArchived_def isTestSuite_def)
  from engine_total [OF h] r h show ?thesis by simp
qed

section \<open>The validator, record by record\<close>

lemma subscript3_data:
  "subscript t ''data'' = Inr data \<Longrightarrow> subscript3 t ''data'' a b = subscript2 data a b"
  by (simp add: subscript3_def ebind_simps)

lemma ebind_Inr_iff: "ebind m f = Inr y \<longleftrightarrow> (\<exists>x. m = Inr x \<and> f x = Inr y)"
  by (cases m) (simp_all add: ebind_simps)

lemma validate_ticket_Inr:
  assumes "validate_ticket n t r = Inr r1"
  shows "\<exists>data e a.
    subscript t ''data'' = Inr data \<and> apply_decision_logic data = Inr e
    \<and> subscript t ''label'' = Inr (JStr a)
    \<and> (lower e = lower a \<longrightarrow>
       r1 = r\<lparr>total_tickets := Suc (total_tickets r), matches := Suc (matches r),
              by_label := count_correct (by_label r) (JStr a)\<rparr>)
    \<and> (lower e \<noteq> lower a \<longrightarrow>
       (\<exists>entry. mismatch_entry n t e (JStr a) = Inr entry
         \<and> r1 = r\<lparr>total_tickets := Suc (total_tickets r),
                  mismatches := mismatches r @ [entry],
                  by_label := count_incorrect (by_label r) (JStr a)\<rparr>))"
proof -
  from assms obtain data e a al where
    d: "subscript t ''data'' = Inr data" and e: "apply_decision_logic data = Inr e"
    and a: "subscript t ''label'' = Inr a" and al: "py_lower a = Inr al"
    by (auto simp: validate_ticket_def Let_def ebind_Inr_iff)
  from al obtain s where s: "a = JStr s" "al = lower s"
    by (cases a) auto
  from assms d e a al s have
    "lower e = lower s \<Longrightarrow>
       r1 = r\<lparr>total_tickets := Suc (total_tickets r), matches := Suc (matches r),
              by_label := count_correct (by_label r) (JStr s)\<rparr>"
    by (simp add: validate_ticket_def Let_def ebind_simps)
  moreover from assms d e a al s have
    "lower e \<noteq> lower s \<Longrightarrow>
       \<exists>entry. mismatch_entry n t e (JStr s) = Inr entry
         \<and> r1 = r\<lparr>total_tickets := Suc (total_tickets r),
                  mismatches := mismatches r @ [entry],
                  by_label := count_incorrect (by_label r) (JStr s)\<rparr>"
    by (auto simp: validate_ticket_def Let_def ebind_simps ebind_Inr_iff)
  ultimately show ?thesis using d e a s by blast
qed

lemma mismatch_entry_diagnostic:
  assumes "subscript t ''data'' = Inr data" "apply_decision_logic data = Inr e"
    "subscript t ''label'' = Inr (JStr a)" "lower e \<noteq> lower a"
  shows "mismatch_entry n t e (JStr a) = Inr entry \<longleftrightarrow> diagnostic n t = Some entry"
proof -
  have ok_iff: "ok m = Some x \<longleftrightarrow> m = Inr x" for m :: "error + json" and x
    by (cases m) auto
  have bind_iff: "Option.bind (ok m) f = Some y \<longleftrightarrow> (\<exists>x. m = Inr x \<and> f x = Some y)"
    for m :: "error + json" and f :: "json \<Rightarrow> json option" and y
    by (cases m) auto
  from assms show ?thesis
    by (simp add: mismatch_entry_def diagnostic_def ebind_Inr_iff subscript3_data bind_iff)
qed

lemma validate_ticket_mismatches:
  assumes "validate_ticket n t r = Inr r1"
  shows "mismatches r1 = mismatches r @ (case diagnostic n t of None \<Rightarrow> [] | Some e \<Rightarrow> [e])"
proof -
  obtain data e a where
    d: "subscript t ''data'' = Inr data" and e: "apply_decision_logic data = Inr e"
    and a: "subscript t ''label'' = Inr (JStr a)"
    and eq: "lower e = lower a \<longrightarrow>
       r1 = r\<lparr>total_tickets := Suc (total_tickets r), matches := Suc (matches r),
              by_label := count_correct (by_label r) (JStr a)\<rparr>"
    and ne: "lower e \<noteq> lower a \<longrightarrow>
       (\<exists>entry. mismatch_entry n t e (JStr a) = Inr entry
         \<and> r1 = r\<lparr>total_tickets := Suc (total_tickets r),
                  mismatches := mismatches r @ [entry],
                  by_label := count_incorrect (by_label r) (JStr a)\<rparr>)"
    using validate_ticket_Inr [OF assms] by blast
  show ?thesis
  proof (cases "lower e = lower a")
    case True
    with d e a have "diagnostic n t = None" by (simp add: diagnostic_def)
    with eq True show ?thesis by simp
  next
    case False
    from ne False obtain entry where m: "mismatch_entry n t e (JStr a) = Inr entry"
      and r1: "r1 = r\<lparr>total_tickets := Suc (total_tickets r),
                  mismatches := mismatches r @ [entry],
                  by_label := count_incorrect (by_label r) (JStr a)\<rparr>"
      by blast
    from m have "diagnostic n t = Some entry"
      by (simp add: mismatch_entry_diagnostic [OF d e a False])
    with r1 show ?thesis by simp
  qed
qed

lemma validate_lines_mismatches:
  "validate_lines n ls r = Inr r' \<Longrightarrow>
     mismatches r' = mismatches r @ List.map_filter line_diagnostic (enumerate n ls)"
proof (induction n ls r arbitrary: r' rule: validate_lines.induct)
  case (1 n r)
  then show ?case by simp
next
  case (2 n rest r)
  then show ?case by simp
next
  case (3 n rest r)
  then show ?case by simp
next
  case (4 n t rest r)
  from "4.prems" obtain r1 where s: "validate_ticket n t r = Inr r1"
    and l: "validate_lines (Suc n) rest r1 = Inr r'"
    by (auto simp: ebind_Inr_iff)
  from "4.IH" [OF l] validate_ticket_mismatches [OF s]
  show ?case by (simp split: option.splits)
qed


lemma validate_lines_append:
  "validate_lines n (xs @ ys) r = ebind (validate_lines n xs r) (validate_lines (n + length xs) ys)"
proof (induction n xs r rule: validate_lines.induct)
  case (4 n t rest r)
  then show ?case by (cases "validate_ticket n t r") (simp_all add: ebind_simps)
qed (simp_all add: ebind_simps)

lemma diagnostic_line: "line_diagnostic (n, l) = Some m \<Longrightarrow> entry_line m = int n"
proof (cases l)
  case (Parsed t)
  assume "line_diagnostic (n, l) = Some m"
  with Parsed have "diagnostic n t = Some m" by simp
  then obtain tid e a rs rt ue cr pinc where
    "m = JObj [(''line'', JNum (int n)), (''ticket_id'', tid), (''expected'', JStr e),
                (''actual'', a), (''rotation_status'', rs), (''repo_type'', rt),
                (''usage'', ue), (''criticality'', cr), (''past_incidents'', pinc)]"
    by (auto simp: diagnostic_def Option.bind_eq_Some_conv split: if_splits)
  then show ?thesis by (simp add: entry_line_def)
qed simp_all

lemma diagnostics_sorted:
  "sorted_wrt (<) (map entry_line (List.map_filter line_diagnostic (enumerate n ls)))
   \<and> (\<forall>x \<in> set (map entry_line (List.map_filter line_diagnostic (enumerate n ls))). int n \<le> x)"
proof (induction ls arbitrary: n)
  case Nil
  then show ?case by simp
next
  case (Cons l ls)
  from Cons [of "Suc n"] have
    s: "sorted_wrt (<) (map entry_line (List.map_filter line_diagnostic (enumerate (Suc n) ls)))"
    and b: "\<forall>x \<in> set (map entry_line (List.map_filter line_diagnostic (enumerate (Suc n) ls))).
              int (Suc n) \<le> x"
    by blast+
  show ?case
  proof (cases "line_diagnostic (n, l)")
    case None
    with s b show ?thesis by force
  next
    case (Some m)
    then have "entry_line m = int n" by (rule diagnostic_line)
    with Some s b show ?thesis by force
  qed
qed

lemma apply_Inr_facts:
  "apply_decision_logic data = Inr e \<Longrightarrow> \<exists>rs rt ue cr ex pinc. has_facts data rs rt ue cr ex pinc"
  by (auto simp: apply_decision_logic_def has_facts_def ebind_Inr_iff)

lemma ebind_Inr_D: "ebind m f = Inr y \<Longrightarrow> \<exists>x. m = Inr x \<and> f x = Inr y"
  by (simp add: ebind_Inr_iff)

lemma decision_rules_canonical:
  assumes "decision_rules rs rt ue cr ex pinc = Inr e"
  shows "e \<in> set canonical_labels"
proof -
  have c: "''Mitigated'' \<in> set canonical_labels" "''False Positive'' \<in> set canonical_labels"
    "''Suppressed'' \<in> set canonical_labels" "''Confirmed'' \<in> set canonical_labels"
    "''Open'' \<in> set canonical_labels"
    by (simp_all add: canonical_labels_def)
  show ?thesis
  proof (cases "rs \<in> set [JStr ''Revoked'', JStr ''Already Rotated'']")
    case True
    with assms have "e = ''Mitigated''" by (simp add: decision_rules_def)
    with c show ?thesis by blast
  next
    case nm: False
    show ?thesis
    proof (cases "rs = JStr ''Invalid''")
      case True
      with assms nm have "e = ''False Positive''" by (simp add: decision_rules_def)
      with c show ?thesis by blast
    next
      case False
      with assms nm obtain archived where
        r: "(if archived then Inr ''Suppressed''
       else ebind (py_in ''Active usage'' ue) (\<lambda>is_active_usage.
            ebind (or_else (py_in ''P0'' cr) (py_in ''P1'' cr)) (\<lambda>is_high_criticality.
            ebind (py_in ''Public'' ex) (\<lambda>is_public.
            ebind (or_else (py_in ''Prod'' rt) (py_in ''Monolith'' rt)) (\<lambda>is_prod_or_monolith.
            let is_test_qa = (rt = JStr ''Test/QA Suite'') in
            if is_test_qa \<and> pinc = JStr ''Frequent False Positives in this file''
               \<and> \<not> is_active_usage then Inr ''False Positive''
            else if rs = JStr ''Active/Valid'' \<and> is_active_usage then Inr ''Confirmed''
            else if rs = JStr ''Active/Valid'' \<and> is_high_criticality \<and> is_public
              then Inr ''Confirmed''
            else if rs = JStr ''Active/Valid'' then Inr ''Open''
            else Inr ''Open''))))) = Inr e"
        unfolding decision_rules_def by (auto dest!: ebind_Inr_D)
      show ?thesis
      proof (cases archived)
        case True
        with r have "e = ''Suppressed''" by simp
        with c show ?thesis by blast
      next
        case False
        with r obtain a h p and m :: bool where
          "(if rt = JStr ''Test/QA Suite'' \<and> pinc = JStr ''Frequent False Positives in this file''
               \<and> \<not> a then Inr ''False Positive''
            else if rs = JStr ''Active/Valid'' \<and> a then Inr ''Confirmed''
            else if rs = JStr ''Active/Valid'' \<and> h \<and> p
              then Inr ''Confirmed''
            else if rs = JStr ''Active/Valid'' then Inr ''Open''
            else Inr ''Open'') = (Inr e :: error + string)"
          by (auto simp: Let_def dest!: ebind_Inr_D)
        then have "e = ''False Positive'' \<or> e = ''Confirmed'' \<or> e = ''Open''"
          by (auto split: if_splits)
        with c show ?thesis by blast
      qed
    qed
  qed
qed


lemma apply_canonical: "apply_decision_logic data = Inr e \<Longrightarrow> e \<in> set canonical_labels"
  using apply_Inr_facts [of data e] by (auto simp: apply_facts dest: decision_rules_canonical)

lemma lower_labels:
  "lower ''Mitigated'' = ''mitigated''"
  "lower ''False Positive'' = ''false positive''"
  "lower ''Suppressed'' = ''suppressed''"
  "lower ''Confirmed'' = ''confirmed''"
  "lower ''Open'' = ''open''"
  by (simp_all add: lower_def lower_char_def)

lemma canonical_cases:
  "a \<in> set canonical_labels \<Longrightarrow>
     a = ''Mitigated'' \<or> a = ''False Positive'' \<or> a = ''Suppressed'' \<or> a = ''Confirmed'' \<or> a = ''Open''"
  by (simp add: canonical_labels_def)

lemma canonical_lower_inj:
  assumes "a \<in> set canonical_labels" "b \<in> set canonical_labels" "lower a = lower b"
  shows "a = b"
proof -
  from canonical_cases [OF assms(1)] canonical_cases [OF assms(2)] assms(3)
  show ?thesis
    by (elim disjE) (simp_all add: lower_labels)
qed


lemma consistent_step:
  assumes "consistent (Parsed t)"
  shows "\<exists>a. validate_ticket n t r =
    Inr (r\<lparr>total_tickets := Suc (total_tickets r), matches := Suc (matches r),
           by_label := count_correct (by_label r) a\<rparr>)"
proof -
  from assms obtain data e where "subscript t ''data'' = Inr data"
    "apply_decision_logic data = Inr e" "subscript t ''label'' = Inr (JStr e)"
    by (auto split: sum.splits)
  then have "validate_ticket n t r =
    Inr (r\<lparr>total_tickets := Suc (total_tickets r), matches := Suc (matches r),
           by_label := count_correct (by_label r) (JStr e)\<rparr>)"
    by (simp add: validate_ticket_def Let_def ebind_simps)
  then show ?thesis by blast
qed

lemma consistent_lines:
  "list_all consistent ls \<Longrightarrow>
     \<exists>r'. validate_lines n ls r = Inr r' \<and> mismatches r' = mismatches r
        \<and> total_tickets r' = total_tickets r + length (filter (\<lambda>l. l \<noteq> Blank) ls)
        \<and> matches r' = matches r + length (filter (\<lambda>l. l \<noteq> Blank) ls)"
proof (induction n ls r rule: validate_lines.induct)
  case (4 n t rest r)
  then have c: "consistent (Parsed t)" and cr: "list_all consistent rest" by simp_all
  from consistent_step [OF c, of n r] obtain a where
    s: "validate_ticket n t r = Inr (r\<lparr>total_tickets := Suc (total_tickets r),
           matches := Suc (matches r), by_label := count_correct (by_label r) a\<rparr>)"
    by blast
  from "4.IH" [OF cr, of "r\<lparr>total_tickets := Suc (total_tickets r),
           matches := Suc (matches r), by_label := count_correct (by_label r) a\<rparr>"] s
  show ?case by (auto simp: ebind_simps)
qed simp_all

lemma subscript_relabel:
  assumes "subscript t k = Inr v"
  shows "subscript (relabel t l) k = (if k = ''label'' then Inr (JStr l) else Inr v)"
proof (cases t)
  case (JObj kvs)
  with assms show ?thesis by (auto simp: update_conv' split: option.splits)
qed (use assms in simp_all)

lemma mismatch_entry_ok:
  assumes d: "subscript t ''data'' = Inr data" and e: "apply_decision_logic data = Inr e"
    and i: "subscript t ''ticket_id'' = Inr tid"
  shows "\<exists>rs rt ue cr pinc. mismatch_entry n t e a =
    Inr (JObj [(''line'', JNum (int n)), (''ticket_id'', tid), (''expected'', JStr e),
               (''actual'', a), (''rotation_status'', rs), (''repo_type'', rt),
               (''usage'', ue), (''criticality'', cr), (''past_incidents'', pinc)])"
proof -
  from apply_Inr_facts [OF e] obtain rs rt ue cr ex pinc where "has_facts data rs rt ue cr ex pinc"
    by blast
  then have "mismatch_entry n t e a =
    Inr (JObj [(''line'', JNum (int n)), (''ticket_id'', tid), (''expected'', JStr e),
               (''actual'', a), (''rotation_status'', rs), (''repo_type'', rt),
               (''usage'', ue), (''criticality'', cr), (''past_incidents'', pinc)])"
    using d i by (simp add: mismatch_entry_def has_facts_def subscript3_data ebind_simps)
  then show ?thesis by blast
qed

lemma mismatch_step:
  assumes d: "subscript t ''data'' = Inr data" and e: "apply_decision_logic data = Inr e"
    and i: "subscript t ''ticket_id'' = Inr tid" and l: "subscript t ''label'' = Inr (JStr a)"
    and ne: "lower e \<noteq> lower a"
  shows "\<exists>rs rt ue cr pinc b. validate_ticket n t r =
    Inr (r\<lparr>total_tickets := Suc (total_tickets r),
           mismatches := mismatches r @
             [JObj [(''line'', JNum (int n)), (''ticket_id'', tid), (''expected'', JStr e),
               (''actual'', JStr a), (''rotation_status'', rs), (''repo_type'', rt),
               (''usage'', ue), (''criticality'', cr), (''past_incidents'', pinc)]],
           by_label := b\<rparr>)"
proof -
  from mismatch_entry_ok [OF d e i, of n "JStr a"] obtain rs rt ue cr pinc where
    "mismatch_entry n t e (JStr a) =
    Inr (JObj [(''line'', JNum (int n)), (''ticket_id'', tid), (''expected'', JStr e),
               (''actual'', JStr a), (''rotation_status'', rs), (''repo_type'', rt),
               (''usage'', ue), (''criticality'', cr), (''past_incidents'', pinc)])"
    by blast
  with d e l ne have "validate_ticket n t r =
    Inr (r\<lparr>total_tickets := Suc (total_tickets r),
           mismatches := mismatches r @
             [JObj [(''line'', JNum (int n)), (''ticket_id'', tid), (''expected'', JStr e),
               (''actual'', JStr a), (''rotation_status'', rs), (''repo_type'', rt),
               (''usage'', ue), (''criticality'', cr), (''past_incidents'', pinc)]],
           by_label := count_incorrect (by_label r) (JStr a)\<rparr>)"
    by (simp add: validate_ticket_def Let_def ebind_simps)
  then show ?thesis by blast
qed


lemma flipped_lines:
  assumes pre: "list_all consistent pre" and post: "list_all consistent post"
    and d: "subscript t ''data'' = Inr data" and e: "apply_decision_logic data = Inr e"
    and i: "subscript t ''ticket_id'' = Inr tid" and l: "subscript t ''label'' = Inr (JStr a)"
    and ne: "lower e \<noteq> lower a"
  shows "\<exists>r' rs rt ue cr pinc. validate_lines n (pre @ Parsed t # post) r = Inr r'
    \<and> mismatches r' = mismatches r @
         [JObj [(''line'', JNum (int (n + length pre))), (''ticket_id'', tid),
               (''expected'', JStr e), (''actual'', JStr a), (''rotation_status'', rs),
               (''repo_type'', rt), (''usage'', ue), (''criticality'', cr),
               (''past_incidents'', pinc)]]
    \<and> total_tickets r' = total_tickets r
         + Suc (length (filter (\<lambda>l. l \<noteq> Blank) pre) + length (filter (\<lambda>l. l \<noteq> Blank) post))
    \<and> matches r' = matches r
         + (length (filter (\<lambda>l. l \<noteq> Blank) pre) + length (filter (\<lambda>l. l \<noteq> Blank) post))"
proof -
  from consistent_lines [OF pre, of n r] obtain r1 where
    r1: "validate_lines n pre r = Inr r1" "mismatches r1 = mismatches r"
      "total_tickets r1 = total_tickets r + length (filter (\<lambda>l. l \<noteq> Blank) pre)"
      "matches r1 = matches r + length (filter (\<lambda>l. l \<noteq> Blank) pre)"
    by blast
  from mismatch_step [OF d e i l ne, of "n + length pre" r1] obtain rs rt ue cr pinc b where
    r2: "validate_ticket (n + length pre) t r1 =
    Inr (r1\<lparr>total_tickets := Suc (total_tickets r1),
           mismatches := mismatches r1 @
             [JObj [(''line'', JNum (int (n + length pre))), (''ticket_id'', tid),
               (''expected'', JStr e), (''actual'', JStr a), (''rotation_status'', rs),
               (''repo_type'', rt), (''usage'', ue), (''criticality'', cr),
               (''past_incidents'', pinc)]],
           by_label := b\<rparr>)"
    by blast
  define r2 where "r2 = r1\<lparr>total_tickets := Suc (total_tickets r1),
           mismatches := mismatches r1 @
             [JObj [(''line'', JNum (int (n + length pre))), (''ticket_id'', tid),
               (''expected'', JStr e), (''actual'', JStr a), (''rotation_status'', rs),
               (''repo_type'', rt), (''usage'', ue), (''criticality'', cr),
               (''past_incidents'', pinc)]],
           by_label := b\<rparr>"
  from consistent_lines [OF post, of "Suc (n + length pre)" r2] obtain r3 where
    r3: "validate_lines (Suc (n + length pre)) post r2 = Inr r3" "mismatches r3 = mismatches r2"
      "total_tickets r3 = total_tickets r2 + length (filter (\<lambda>l. l \<noteq> Blank) post)"
      "matches r3 = matches r2 + length (filter (\<lambda>l. l \<noteq> Blank) post)"
    by blast
  have "validate_lines n (pre @ Parsed t # post) r = Inr r3"
    using r1(1) r2 r3(1) by (simp add: validate_lines_append ebind_simps r2_def)
  moreover have "mismatches r3 = mismatches r @
         [JObj [(''line'', JNum (int (n + length pre))), (''ticket_id'', tid),
               (''expected'', JStr e), (''actual'', JStr a), (''rotation_status'', rs),
               (''repo_type'', rt), (''usage'', ue), (''criticality'', cr),
               (''past_incidents'', pinc)]]"
    using r3(2) r1(2) by (simp add: r2_def)
  moreover have "total_tickets r3 = total_tickets r
         + Suc (length (filter (\<lambda>l. l \<noteq> Blank) pre) + length (filter (\<lambda>l. l \<noteq> Blank) post))"
    using r3(3) r1(3) by (simp add: r2_def)
  moreover have "matches r3 = matches r
         + (length (filter (\<lambda>l. l \<noteq> Blank) pre) + length (filter (\<lambda>l. l \<noteq> Blank) post))"
    using r3(4) r1(4) by (simp add: r2_def)
  ultimately show ?thesis by blast
qed

lemma apply_sample_data:
  "apply_decision_logic (sample_data repo usage rotation past) =
     decision_rules (JStr rotation) (JStr repo) (JStr usage)
       (JStr ''Critical (P0 - Customer Data)'') (JStr ''Public (Open Source)'') (JStr past)"
  by (rule apply_facts [OF sample_data_facts])

lemma apply_confirmed:
  "apply_decision_logic (sample_data ''Prod Microservice''
     ''Active usage in CloudTrail/Logs (Last 1h)'' ''Active/Valid'' ''None'') = Inr ''Confirmed''"
  by (simp add: apply_sample_data decision_rules_def ebind_simps or_else_Inr)

lemma apply_mitigated:
  "apply_decision_logic (sample_data ''Internal Tooling'' ''Unable to verify'' ''Revoked''
     ''None'') = Inr ''Mitigated''"
  by (simp add: apply_sample_data decision_rules_def)

lemma ticket_record_reads:
  "subscript (ticket_record tid data label comment) ''data'' = Inr data"
  "subscript (ticket_record tid data label comment) ''label'' = Inr (JStr label)"
  "subscript (ticket_record tid data label comment) ''ticket_id'' = Inr (JStr tid)"
  by (simp_all add: ticket_record_def)

lemma validate_ticket_match:
  assumes "subscript t ''data'' = Inr data" "apply_decision_logic data = Inr e"
    "subscript t ''label'' = Inr (JStr a)" "lower e = lower a"
  shows "validate_ticket n t r =
    Inr (r\<lparr>total_tickets := Suc (total_tickets r), matches := Suc (matches r),
           by_label := count_correct (by_label r) (JStr a)\<rparr>)"
  using assms by (simp add: validate_ticket_def Let_def ebind_simps)

lemma validate_ticket_mismatch:
  assumes "subscript t ''data'' = Inr data" "apply_decision_logic data = Inr e"
    "subscript t ''label'' = Inr (JStr a)" "lower e \<noteq> lower a"
    "mismatch_entry n t e (JStr a) = Inr entry"
  shows "validate_ticket n t r =
    Inr (r\<lparr>total_tickets := Suc (total_tickets r), mismatches := mismatches r @ [entry],
           by_label := count_incorrect (by_label r) (JStr a)\<rparr>)"
  using assms by (simp add: validate_ticket_def Let_def ebind_simps)

lemma sample_ticket_reads:
  "subscript (confirmed_ticket l) ''data'' = Inr (sample_data ''Prod Microservice''
     ''Active usage in CloudTrail/Logs (Last 1h)'' ''Active/Valid'' ''None'')"
  "subscript (confirmed_ticket l) ''label'' = Inr (JStr l)"
  "subscript (confirmed_ticket l) ''ticket_id'' = Inr (JStr ''SEC-10001'')"
  "subscript (mitigated_ticket l) ''data'' = Inr (sample_data ''Internal Tooling''
     ''Unable to verify'' ''Revoked'' ''None'')"
  "subscript (mitigated_ticket l) ''label'' = Inr (JStr l)"
  "subscript (mitigated_ticket l) ''ticket_id'' = Inr (JStr ''SEC-10002'')"
  by (simp_all add: confirmed_ticket_def mitigated_ticket_def ticket_record_reads)

lemma sample_validate: "validate_dataset sample_corpus = Inr sample_report"
proof -
  have l1: "lower ''Confirmed'' = lower ''CONFIRMED''" by (simp add: lower_def lower_char_def)
  have l2: "lower ''Mitigated'' \<noteq> lower ''Open''" by (simp add: lower_def lower_char_def)
  have l3: "lower ''Confirmed'' \<noteq> lower ''Suppressed''" by (simp add: lower_def lower_char_def)
  have f: "has_facts (sample_data ''Internal Tooling'' ''Unable to verify'' ''Revoked'' ''None'')
     (JStr ''Revoked'') (JStr ''Internal Tooling'') (JStr ''Unable to verify'')
     (JStr ''Critical (P0 - Customer Data)'') (JStr ''Public (Open Source)'') (JStr ''None'')"
    by (rule sample_data_facts)
  have g: "has_facts (sample_data ''Prod Microservice''
       ''Active usage in CloudTrail/Logs (Last 1h)'' ''Active/Valid'' ''None'')
     (JStr ''Active/Valid'') (JStr ''Prod Microservice'')
     (JStr ''Active usage in CloudTrail/Logs (Last 1h)'')
     (JStr ''Critical (P0 - Customer Data)'') (JStr ''Public (Open Source)'') (JStr ''None'')"
    by (rule sample_data_facts)
  have m: "mismatch_entry n (mitigated_ticket ''Open'') ''Mitigated'' (JStr ''Open'') =
    Inr (JObj [(''line'', JNum (int n)), (''ticket_id'', JStr ''SEC-10002''),
             (''expected'', JStr ''Mitigated''), (''actual'', JStr ''Open''),
             (''rotation_status'', JStr ''Revoked''), (''repo_type'', JStr ''Internal Tooling''),
             (''usage'', JStr ''Unable to verify''),
             (''criticality'', JStr ''Critical (P0 - Customer Data)''),
             (''past_incidents'', JStr ''None'')])"
    for n
    using f by (simp add: mismatch_entry_def sample_ticket_reads
        subscript3_data has_facts_def ebind_simps)
  have m3: "mismatch_entry n (confirmed_ticket ''Suppressed'') ''Confirmed'' (JStr ''Suppressed'') =
    Inr (JObj [(''line'', JNum (int n)), (''ticket_id'', JStr ''SEC-10001''),
          (''expected'', JStr ''Confirmed''), (''actual'', JStr ''Suppressed''),
          (''rotation_status'', JStr ''Active/Valid''), (''repo_type'', JStr ''Prod Microservice''),
          (''usage'', JStr ''Active usage in CloudTrail/Logs (Last 1h)''),
          (''criticality'', JStr ''Critical (P0 - Customer Data)''),
          (''past_incidents'', JStr ''None'')])"
    for n
    using g by (simp add: mismatch_entry_def sample_ticket_reads
        subscript3_data has_facts_def ebind_simps)
  note v1 = validate_ticket_match [OF sample_ticket_reads(1) apply_confirmed
      sample_ticket_reads(2) l1]
  note v2 = validate_ticket_mismatch [OF sample_ticket_reads(4) apply_mitigated
      sample_ticket_reads(5) l2 m]
  note v3 = validate_ticket_mismatch [OF sample_ticket_reads(1) apply_confirmed
      sample_ticket_reads(2) l3 m3]
  show ?thesis
    by (simp add: sample_corpus_def sample_report_def validate_dataset_def v1 v2 v3 ebind_simps
        count_correct_def count_incorrect_def)
qed

lemma consistent_corpus_ok: "list_all consistent consistent_corpus"
  by (simp add: consistent_corpus_def sample_ticket_reads apply_confirmed apply_mitigated)

lemma record_reads:
  assumes "record_error t = None"
  shows "\<exists>data e a. subscript t ''data'' = Inr data \<and> apply_decision_logic data = Inr e
    \<and> subscript t ''label'' = Inr (JStr a)"
proof -
  from assms obtain l where "ebind (subscript t ''data'') (\<lambda>data.
          ebind (apply_decision_logic data) (\<lambda>expected.
          ebind (subscript t ''label'') (\<lambda>actual. py_lower actual))) = Inr l"
    by (auto simp: record_error_def split: sum.splits)
  then obtain data e a where d: "subscript t ''data'' = Inr data"
    and e: "apply_decision_logic data = Inr e" and a: "subscript t ''label'' = Inr a"
    and l: "py_lower a = Inr l"
    by (auto simp: ebind_Inr_iff)
  from l obtain s where "a = JStr s" by (cases a) auto
  with d e a show ?thesis by blast
qed

lemma well_formed_step:
  assumes "well_formed (Parsed t)"
  shows "\<exists>r1. validate_ticket n t r = Inr r1 \<and> total_tickets r1 = Suc (total_tickets r)
    \<and> matches r1 + length (mismatches r1) = Suc (matches r + length (mismatches r))"
proof -
  from assms have re: "record_error t = None" and "ok (subscript t ''ticket_id'') \<noteq> None"
    by simp_all
  then obtain tid where i: "subscript t ''ticket_id'' = Inr tid"
    by (cases "subscript t ''ticket_id''") auto
  from record_reads [OF re] obtain data e a where d: "subscript t ''data'' = Inr data"
    and e: "apply_decision_logic data = Inr e" and l: "subscript t ''label'' = Inr (JStr a)"
    by blast
  show ?thesis
  proof (cases "lower e = lower a")
    case True
    from validate_ticket_match [OF d e l True, of n r] show ?thesis by simp
  next
    case False
    from mismatch_step [OF d e i l False, of n r] show ?thesis by auto
  qed
qed

lemma well_formed_lines:
  "list_all well_formed ls \<Longrightarrow>
     \<exists>r'. validate_lines n ls r = Inr r'
        \<and> total_tickets r' = total_tickets r + length (filter (\<lambda>l. l \<noteq> Blank) ls)
        \<and> matches r' + length (mismatches r')
            = matches r + length (mismatches r) + length (filter (\<lambda>l. l \<noteq> Blank) ls)"
proof (induction n ls r rule: validate_lines.induct)
  case (4 n t rest r)
  then have w: "well_formed (Parsed t)" and wr: "list_all well_formed rest" by simp_all
  from well_formed_step [OF w, of n r] obtain r1 where
    s: "validate_ticket n t r = Inr r1" and t1: "total_tickets r1 = Suc (total_tickets r)"
    and m1: "matches r1 + length (mismatches r1) = Suc (matches r + length (mismatches r))"
    by blast
  from "4.IH" [OF wr, of r1] obtain r' where
    "validate_lines (Suc n) rest r1 = Inr r'"
    "total_tickets r' = total_tickets r1 + length (filter (\<lambda>l. l \<noteq> Blank) rest)"
    "matches r' + length (mismatches r')
       = matches r1 + length (mismatches r1) + length (filter (\<lambda>l. l \<noteq> Blank) rest)"
    by blast
  with s t1 m1 show ?case by (simp add: ebind_simps)
qed simp_all

lemma sample_corpus_ok: "list_all well_formed sample_corpus"
  by (simp add: sample_corpus_def record_error_def sample_ticket_reads apply_confirmed
      apply_mitigated ebind_simps)

section \<open>The report of the validator\<close>

text \<open>
  Claim C2, as stated, fails on the corpus without tickets: every label in it is the
  engine's, the report has no mismatch entry and matches equal to the total, but the
  total is 0 and the accuracy computed from the report is 0, not 100.
\<close>

theorem empty_corpus_counterexample:
  "list_all consistent []
   \<and> map_sum id mismatches (validate_dataset []) = Inr []
   \<and> map_sum id total_tickets (validate_dataset []) = Inr 0
   \<and> map_sum id matches (validate_dataset []) = Inr 0
   \<and> map_sum id accuracy (validate_dataset []) = Inr 0
   \<and> map_sum id accuracy (validate_dataset []) \<noteq> Inr 100"
  by (simp add: validate_dataset_def accuracy_def)

text \<open>
  Claim C2, amended. On a corpus where every record's label is the string the engine
  returns on its facts, the validator returns a report with no mismatch entry, whose
  total is the number of tickets (the lines that are not blank) and whose matches equal
  the total; its accuracy is 100 when the corpus has a ticket and 0 when it has none.
  When one record of such a corpus, one that has a ticket id, gets another of the five
  labels, the validator returns a report with exactly one mismatch entry: its line is
  the line of the record, its expected label the engine's, its actual label the new one;
  the total is still the number of tickets and the matches are one short of it.
\<close>

theorem validator_correct:
  assumes c: "list_all consistent file_lines"
  shows "(\<exists>r. validate_dataset file_lines = Inr r \<and> mismatches r = []
            \<and> total_tickets r = length (filter (\<lambda>l. l \<noteq> Blank) file_lines)
            \<and> matches r = total_tickets r
            \<and> accuracy r = (if total_tickets r = 0 then 0 else 100))
    \<and> (i < length file_lines \<and> file_lines ! i = Parsed t \<and> subscript t ''data'' = Inr data
        \<and> apply_decision_logic data = Inr e \<and> subscript t ''ticket_id'' = Inr tid
        \<and> new \<in> set canonical_labels \<and> new \<noteq> e
       \<longrightarrow> (\<exists>r' rs rt ue cr pinc.
              validate_dataset (file_lines[i := Parsed (relabel t new)]) = Inr r'
            \<and> mismatches r' =
                [JObj [(''line'', JNum (int i + 1)), (''ticket_id'', tid),
                       (''expected'', JStr e), (''actual'', JStr new),
                       (''rotation_status'', rs), (''repo_type'', rt), (''usage'', ue),
                       (''criticality'', cr), (''past_incidents'', pinc)]]
            \<and> total_tickets r' = length (filter (\<lambda>l. l \<noteq> Blank) file_lines)
            \<and> matches r' + 1 = total_tickets r'))"
proof (intro conjI impI)
  from consistent_lines [OF c, of 1
      "\<lparr>total_tickets = 0, matches = 0, mismatches = [], by_label = Map.empty\<rparr>"]
  obtain r where r: "validate_dataset file_lines = Inr r" "mismatches r = []"
    "total_tickets r = length (filter (\<lambda>l. l \<noteq> Blank) file_lines)"
    "matches r = length (filter (\<lambda>l. l \<noteq> Blank) file_lines)"
    by (auto simp: validate_dataset_def)
  then have "accuracy r = (if total_tickets r = 0 then 0 else 100)"
    by (simp add: accuracy_def)
  with r show "\<exists>r. validate_dataset file_lines = Inr r \<and> mismatches r = []
            \<and> total_tickets r = length (filter (\<lambda>l. l \<noteq> Blank) file_lines)
            \<and> matches r = total_tickets r
            \<and> accuracy r = (if total_tickets r = 0 then 0 else 100)"
    by auto
next
  assume h: "i < length file_lines \<and> file_lines ! i = Parsed t \<and> subscript t ''data'' = Inr data
        \<and> apply_decision_logic data = Inr e \<and> subscript t ''ticket_id'' = Inr tid
        \<and> new \<in> set canonical_labels \<and> new \<noteq> e"
  then have i: "i < length file_lines" and t: "file_lines ! i = Parsed t"
    and d: "subscript t ''data'' = Inr data" and e: "apply_decision_logic data = Inr e"
    and tid: "subscript t ''ticket_id'' = Inr tid" and new: "new \<in> set canonical_labels"
    and ne: "new \<noteq> e"
    by simp_all
  let ?t = "relabel t new"
  let ?pre = "take i file_lines" and ?post = "drop (Suc i) file_lines"
  have upd: "file_lines[i := Parsed ?t] = ?pre @ Parsed ?t # ?post"
    using i by (rule upd_conv_take_nth_drop)
  have split: "file_lines = ?pre @ Parsed t # ?post"
    unfolding t [symmetric] using i by (rule id_take_nth_drop)
  have cnt: "length (filter (\<lambda>l. l \<noteq> Blank) file_lines)
      = Suc (length (filter (\<lambda>l. l \<noteq> Blank) ?pre) + length (filter (\<lambda>l. l \<noteq> Blank) ?post))"
    using arg_cong [OF split, of "\<lambda>ls. length (filter (\<lambda>l. l \<noteq> Blank) ls)"] by simp
  from c have pre: "list_all consistent ?pre" and post: "list_all consistent ?post"
    by (auto simp: list_all_iff dest: in_set_takeD in_set_dropD)
  have d': "subscript ?t ''data'' = Inr data" using subscript_relabel [OF d, of new] by simp
  have tid': "subscript ?t ''ticket_id'' = Inr tid"
    using subscript_relabel [OF tid, of new] by simp
  from i have "file_lines ! i \<in> set file_lines" by (rule nth_mem)
  with c have "consistent (file_lines ! i)" unfolding list_all_iff by blast
  then have "consistent (Parsed t)" unfolding t .
  with d e have "subscript t ''label'' = Inr (JStr e)" by simp
  then have l': "subscript ?t ''label'' = Inr (JStr new)"
    using subscript_relabel [of t "''label''" "JStr e" new] by simp
  have lne: "lower e \<noteq> lower new"
    using canonical_lower_inj [OF apply_canonical [OF e] new] ne by blast
  from flipped_lines [OF pre post d' e tid' l' lne, of 1
      "\<lparr>total_tickets = 0, matches = 0, mismatches = [], by_label = Map.empty\<rparr>"]
  obtain r' rs rt ue cr pinc where
    v: "validate_lines 1 (?pre @ Parsed ?t # ?post)
          \<lparr>total_tickets = 0, matches = 0, mismatches = [], by_label = Map.empty\<rparr> = Inr r'"
    and m: "mismatches r' =
         [JObj [(''line'', JNum (int (1 + length ?pre))), (''ticket_id'', tid),
               (''expected'', JStr e), (''actual'', JStr new), (''rotation_status'', rs),
               (''repo_type'', rt), (''usage'', ue), (''criticality'', cr),
               (''past_incidents'', pinc)]]"
    and tot: "total_tickets r' = Suc (length (filter (\<lambda>l. l \<noteq> Blank) ?pre)
                + length (filter (\<lambda>l. l \<noteq> Blank) ?post))"
    and mat: "matches r' = length (filter (\<lambda>l. l \<noteq> Blank) ?pre)
                + length (filter (\<lambda>l. l \<noteq> Blank) ?post)"
    by auto
  from i have len: "int (1 + length ?pre) = int i + 1" by simp
  have "validate_dataset (file_lines[i := Parsed ?t]) = Inr r'"
    unfolding upd validate_dataset_def by (rule v)
  moreover have "mismatches r' =
                [JObj [(''line'', JNum (int i + 1)), (''ticket_id'', tid),
                       (''expected'', JStr e), (''actual'', JStr new),
                       (''rotation_status'', rs), (''repo_type'', rt), (''usage'', ue),
                       (''criticality'', cr), (''past_incidents'', pinc)]]"
    using m unfolding len .
  moreover have "total_tickets r' = length (filter (\<lambda>l. l \<noteq> Blank) file_lines)"
    using tot cnt by simp
  moreover have "matches r' + 1 = total_tickets r'" using tot mat by simp
  ultimately show "\<exists>r' rs rt ue cr pinc.
              validate_dataset (file_lines[i := Parsed (relabel t new)]) = Inr r'
            \<and> mismatches r' =
                [JObj [(''line'', JNum (int i + 1)), (''ticket_id'', tid),
                       (''expected'', JStr e), (''actual'', JStr new),
                       (''rotation_status'', rs), (''repo_type'', rt), (''usage'', ue),
                       (''criticality'', cr), (''past_incidents'', pinc)]]
            \<and> total_tickets r' = length (filter (\<lambda>l. l \<noteq> Blank) file_lines)
            \<and> matches r' + 1 = total_tickets r'"
    by blast
qed

theorem validator_correct_witness:
  "list_all consistent consistent_corpus
   \<and> (\<exists>r. validate_dataset consistent_corpus = Inr r \<and> mismatches r = []
          \<and> total_tickets r = 2 \<and> matches r = 2 \<and> accuracy r = 100)
   \<and> 2 < length consistent_corpus
   \<and> consistent_corpus ! 2 = Parsed (mitigated_ticket ''Mitigated'')
   \<and> ''Open'' \<in> set canonical_labels \<and> ''Open'' \<noteq> ''Mitigated''
   \<and> (\<exists>r' rs rt ue cr pinc.
         validate_dataset
           (consistent_corpus[2 := Parsed (relabel (mitigated_ticket ''Mitigated'') ''Open'')])
           = Inr r'
       \<and> mismatches r' =
           [JObj [(''line'', JNum (int 2 + 1)), (''ticket_id'', JStr ''SEC-10002''),
                  (''expected'', JStr ''Mitigated''), (''actual'', JStr ''Open''),
                  (''rotation_status'', rs), (''repo_type'', rt), (''usage'', ue),
                  (''criticality'', cr), (''past_incidents'', pinc)]]
       \<and> total_tickets r' = 2 \<and> matches r' + 1 = total_tickets r')"
proof -
  have i: "2 < length consistent_corpus"
    and t: "consistent_corpus ! 2 = Parsed (mitigated_ticket ''Mitigated'')"
    by (simp_all add: consistent_corpus_def)
  have n: "''Open'' \<in> set canonical_labels" "''Open'' \<noteq> ''Mitigated''"
    by (simp_all add: canonical_labels_def)
  have k: "length (filter (\<lambda>l. l \<noteq> Blank) consistent_corpus) = 2"
    by (simp add: consistent_corpus_def)
  note th = validator_correct [OF consistent_corpus_ok, of 2 "mitigated_ticket ''Mitigated''"
      "sample_data ''Internal Tooling'' ''Unable to verify'' ''Revoked'' ''None''"
      "''Mitigated''" "JStr ''SEC-10002''" "''Open''", unfolded k]
  from th have a: "\<exists>r. validate_dataset consistent_corpus = Inr r \<and> mismatches r = []
          \<and> total_tickets r = 2 \<and> matches r = 2 \<and> accuracy r = 100"
    by auto
  from th i t n sample_ticket_reads(4,6) [of "''Mitigated''"] apply_mitigated
  have b: "\<exists>r' rs rt ue cr pinc.
         validate_dataset
           (consistent_corpus[2 := Parsed (relabel (mitigated_ticket ''Mitigated'') ''Open'')])
           = Inr r'
       \<and> mismatches r' =
           [JObj [(''line'', JNum (int 2 + 1)), (''ticket_id'', JStr ''SEC-10002''),
                  (''expected'', JStr ''Mitigated''), (''actual'', JStr ''Open''),
                  (''rotation_status'', rs), (''repo_type'', rt), (''usage'', ue),
                  (''criticality'', cr), (''past_incidents'', pinc)]]
       \<and> total_tickets r' = 2 \<and> matches r' + 1 = total_tickets r'"
    by blast
  from a b i t n consistent_corpus_ok show ?thesis by blast
qed

text \<open>
  Claim C3. Whenever the validator returns a report, its mismatch list is, in the order
  of the corpus, the diagnostic record of every line whose recorded label differs from
  the recomputed one after both are put in lower case, and of no other line; each holds
  the line, the ticket id, the expected and the actual label, rotation status, repo type,
  usage evidence, criticality and past incidents, and the line numbers increase along
  the list. And on every corpus whose records can be read and have a ticket id, however
  many of them mismatch, the validator does return a report: with that list, with the
  number of tickets as its total, and with a match counted for every ticket that has no
  entry.
\<close>

theorem mismatches_in_order:
  "(validate_dataset file_lines = Inr r \<longrightarrow>
       mismatches r = List.map_filter line_diagnostic (enumerate 1 file_lines)
     \<and> sorted_wrt (<) (map entry_line (mismatches r)))
   \<and> (list_all well_formed file_lines \<longrightarrow>
       (\<exists>r'. validate_dataset file_lines = Inr r'
          \<and> mismatches r' = List.map_filter line_diagnostic (enumerate 1 file_lines)
          \<and> sorted_wrt (<) (map entry_line (mismatches r'))
          \<and> total_tickets r' = length (filter (\<lambda>l. l \<noteq> Blank) file_lines)
          \<and> matches r' + length (mismatches r') = total_tickets r'))"
proof -
  have a: "mismatches r = List.map_filter line_diagnostic (enumerate 1 file_lines)
     \<and> sorted_wrt (<) (map entry_line (mismatches r))"
    if "validate_dataset file_lines = Inr r" for r
  proof -
    from that have "mismatches r = List.map_filter line_diagnostic (enumerate 1 file_lines)"
      using validate_lines_mismatches [of 1 file_lines _ r] by (simp add: validate_dataset_def)
    then show ?thesis using diagnostics_sorted [of 1 file_lines] by simp
  qed
  have b: "\<exists>r'. validate_dataset file_lines = Inr r'
          \<and> mismatches r' = List.map_filter line_diagnostic (enumerate 1 file_lines)
          \<and> sorted_wrt (<) (map entry_line (mismatches r'))
          \<and> total_tickets r' = length (filter (\<lambda>l. l \<noteq> Blank) file_lines)
          \<and> matches r' + length (mismatches r') = total_tickets r'"
    if w: "list_all well_formed file_lines"
  proof -
    from well_formed_lines [OF w, of 1
      "\<lparr>total_tickets = 0, matches = 0, mismatches = [], by_label = Map.empty\<rparr>"]
    obtain r' where v: "validate_dataset file_lines = Inr r'"
      and "total_tickets r' = length (filter (\<lambda>l. l \<noteq> Blank) file_lines)"
      and "matches r' + length (mismatches r') = length (filter (\<lambda>l. l \<noteq> Blank) file_lines)"
      by (auto simp: validate_dataset_def)
    with a [OF v] show ?thesis by auto
  qed
  from a b show ?thesis by blast
qed

theorem mismatches_in_order_witness:
  "validate_dataset sample_corpus = Inr sample_report
   \<and> list_all well_formed sample_corpus
   \<and> mismatches sample_report = List.map_filter line_diagnostic (enumerate 1 sample_corpus)
   \<and> sorted_wrt (<) (map entry_line (mismatches sample_report))
   \<and> map entry_line (mismatches sample_report) = [3, 4]
   \<and> (\<exists>r'. validate_dataset sample_corpus = Inr r'
          \<and> mismatches r' = List.map_filter line_diagnostic (enumerate 1 sample_corpus)
          \<and> sorted_wrt (<) (map entry_line (mismatches r'))
          \<and> total_tickets r' = length (filter (\<lambda>l. l \<noteq> Blank) sample_corpus)
          \<and> matches r' + length (mismatches r') = total_tickets r')"
proof -
  have l: "map entry_line (mismatches sample_report) = [3, 4]"
    by (simp add: sample_report_def entry_line_def)
  from mismatches_in_order [of sample_corpus sample_report] sample_validate sample_corpus_ok l
  show ?thesis by blast
qed

section \<open>Malformed records\<close>

lemma record_error_step: "record_error t = Some e \<Longrightarrow> validate_ticket n t r = Inl e"
  by (auto simp: record_error_def validate_ticket_def Let_def ebind_def split: sum.splits)

lemma line_error_step: "line_error l = Some e \<Longrightarrow> validate_lines n (l # post) r = Inl e"
  by (cases l) (simp_all add: record_error_step ebind_simps)

lemma validate_ticket_readable: "validate_ticket n t r = Inr r1 \<Longrightarrow> record_error t = None"
  using validate_ticket_Inr [of n t r r1]
  by (auto simp: record_error_def ebind_simps)

lemma validate_lines_readable:
  "validate_lines n ls r = Inr r' \<Longrightarrow> l \<in> set ls \<Longrightarrow> line_error l = None"
proof (induction n ls r arbitrary: r' rule: validate_lines.induct)
  case (4 n t rest r)
  from "4.prems"(1) obtain r1 where s: "validate_ticket n t r = Inr r1"
    and rest: "validate_lines (Suc n) rest r1 = Inr r'"
    by (auto simp: ebind_Inr_iff)
  from "4.prems"(2) consider "l = Parsed t" | "l \<in> set rest" by auto
  then show ?case
  proof cases
    case 1
    with validate_ticket_readable [OF s] show ?thesis by simp
  next
    case 2
    with "4.IH" [OF rest] show ?thesis by blast
  qed
qed auto

lemma record_without_data_error: "line_error (Parsed record_without_data) = Some (KeyError ''data'')"
  by (simp add: record_error_def record_without_data_def ebind_simps)

lemma record_readable:
  assumes "record_error t = None"
  shows "\<exists>data rs rt ue cr ex pinc a. subscript t ''data'' = Inr data
    \<and> has_facts data rs rt ue cr ex pinc \<and> subscript t ''label'' = Inr (JStr a)"
proof -
  from assms obtain l where "ebind (subscript t ''data'') (\<lambda>data.
          ebind (apply_decision_logic data) (\<lambda>expected.
          ebind (subscript t ''label'') (\<lambda>actual. py_lower actual))) = Inr l"
    by (auto simp: record_error_def split: sum.splits)
  then obtain data e a where d: "subscript t ''data'' = Inr data"
    and e: "apply_decision_logic data = Inr e" and a: "subscript t ''label'' = Inr a"
    and l: "py_lower a = Inr l"
    by (auto simp: ebind_Inr_iff)
  from l obtain s where "a = JStr s" by (cases a) auto
  with d a apply_Inr_facts [OF e] show ?thesis by blast
qed

lemma consistent_corpus_report:
  "validate_dataset consistent_corpus =
     Inr \<lparr>total_tickets = 2, matches = 2, mismatches = [],
          by_label = [JStr ''Confirmed'' \<mapsto> (1, 0), JStr ''Mitigated'' \<mapsto> (1, 0)]\<rparr>"
proof -
  have l1: "lower ''Confirmed'' = lower ''Confirmed''" and l2: "lower ''Mitigated'' = lower ''Mitigated''"
    by simp_all
  note v1 = validate_ticket_match [OF sample_ticket_reads(1) apply_confirmed
      sample_ticket_reads(2) l1]
  note v2 = validate_ticket_match [OF sample_ticket_reads(4) apply_mitigated
      sample_ticket_reads(5) l2]
  show ?thesis
    by (simp add: consistent_corpus_def validate_dataset_def v1 v2 ebind_simps
        count_correct_def)
qed

text \<open>
  Claim C8, as stated, fails twice. The exception raised for a record without
  \<^verbatim>\<open>data\<close> is the same at line 1 and at line 2: it names the key and carries no
  position. And a record that lacks required fields is validated without any error when
  the validator does not read them: category, detection source and impact radius are
  never read, and the ticket id only when the labels differ.
\<close>

theorem malformed_record_counterexample:
  "validate_dataset [Parsed record_without_data] = Inl (KeyError ''data'')
   \<and> validate_dataset [Parsed (confirmed_ticket ''Confirmed''), Parsed record_without_data]
       = Inl (KeyError ''data'')
   \<and> subscript record_without_category ''ticket_id'' = Inl (KeyError ''ticket_id'')
   \<and> subscript2 record_without_category ''data'' ''category'' = Inl (KeyError ''category'')
   \<and> validate_dataset [Parsed record_without_category] =
       Inr \<lparr>total_tickets = 1, matches = 1, mismatches = [],
            by_label = [JStr ''Mitigated'' \<mapsto> (1, 0)]\<rparr>"
proof -
  have e: "validate_ticket n record_without_data r = Inl (KeyError ''data'')" for n r
    by (simp add: validate_ticket_def record_without_data_def Let_def ebind_simps)
  have l1: "lower ''Confirmed'' = lower ''Confirmed''" by simp
  note v1 = validate_ticket_match [OF sample_ticket_reads(1) apply_confirmed
      sample_ticket_reads(2) l1]
  have d: "subscript record_without_category ''data'' =
    Inr (JObj [(''repo_details'', JObj [(''type'', JStr ''Internal Tooling''),
                                         (''exposure'', JStr ''Private (Internal)''),
                                         (''criticality'', JStr ''Low (P3 - Sandbox)'')]),
                 (''investigation'', JObj [(''usage_evidence'', JStr ''Unable to verify''),
                                          (''rotation_status'', JStr ''Revoked''),
                                          (''similar_past_incidents'', JStr ''None'')])])"
    and l: "subscript record_without_category ''label'' = Inr (JStr ''Mitigated'')"
    by (simp_all add: record_without_category_def)
  have a: "apply_decision_logic (JObj [(''repo_details'', JObj [(''type'', JStr ''Internal Tooling''),
                                         (''exposure'', JStr ''Private (Internal)''),
                                         (''criticality'', JStr ''Low (P3 - Sandbox)'')]),
                 (''investigation'', JObj [(''usage_evidence'', JStr ''Unable to verify''),
                                          (''rotation_status'', JStr ''Revoked''),
                                          (''similar_past_incidents'', JStr ''None'')])])
     = Inr ''Mitigated''"
    by (simp add: apply_decision_logic_def subscript2_def ebind_simps decision_rules_def)
  have l2: "lower ''Mitigated'' = lower ''Mitigated''" by simp
  note v3 = validate_ticket_match [OF d a l l2]
  have "validate_dataset [Parsed record_without_data] = Inl (KeyError ''data'')"
    by (simp add: validate_dataset_def e ebind_simps)
  moreover have "validate_dataset [Parsed (confirmed_ticket ''Confirmed''), Parsed record_without_data]
       = Inl (KeyError ''data'')"
    by (simp add: validate_dataset_def v1 e ebind_simps)
  moreover have "subscript record_without_category ''ticket_id'' = Inl (KeyError ''ticket_id'')"
    by (simp add: record_without_category_def)
  moreover have "subscript2 record_without_category ''data'' ''category'' = Inl (KeyError ''category'')"
    by (simp add: record_without_category_def subscript2_def ebind_simps)
  moreover have "validate_dataset [Parsed record_without_category] =
       Inr \<lparr>total_tickets = 1, matches = 1, mismatches = [],
            by_label = [JStr ''Mitigated'' \<mapsto> (1, 0)]\<rparr>"
    by (simp add: validate_dataset_def v3 ebind_simps count_correct_def)
  ultimately show ?thesis by blast
qed

text \<open>
  Claim C8, amended. When a line is not JSON, or a record lacks \<^verbatim>\<open>data\<close>,
  \<^verbatim>\<open>label\<close> or a fact the engine reads, the exception of that read (for a missing
  key, the KeyError naming it) is the result of the whole run as soon as the lines
  before it were processed, whatever follows. And when a report is returned, no line
  failed to parse and every record had its \<^verbatim>\<open>data\<close>, the six facts and a string
  \<^verbatim>\<open>label\<close>: no missing fact is replaced by a default.
\<close>

theorem unreadable_record_aborts:
  "(validate_dataset pre = Inr r0 \<and> line_error l = Some e
      \<longrightarrow> validate_dataset (pre @ l # post) = Inl e)
   \<and> (validate_dataset file_lines = Inr r \<and> Parsed t \<in> set file_lines
      \<longrightarrow> (\<exists>data rs rt ue cr ex pinc a. subscript t ''data'' = Inr data
             \<and> has_facts data rs rt ue cr ex pinc \<and> subscript t ''label'' = Inr (JStr a)))
   \<and> (validate_dataset file_lines = Inr r \<longrightarrow> Unparsable \<notin> set file_lines)"
proof (intro conjI impI)
  assume "validate_dataset pre = Inr r0 \<and> line_error l = Some e"
  then show "validate_dataset (pre @ l # post) = Inl e"
    by (simp add: validate_dataset_def validate_lines_append ebind_simps line_error_step)
next
  assume h: "validate_dataset file_lines = Inr r \<and> Parsed t \<in> set file_lines"
  then have "line_error (Parsed t) = None"
    unfolding validate_dataset_def by (blast intro: validate_lines_readable)
  then have "record_error t = None" by simp
  then show "\<exists>data rs rt ue cr ex pinc a. subscript t ''data'' = Inr data
             \<and> has_facts data rs rt ue cr ex pinc \<and> subscript t ''label'' = Inr (JStr a)"
    by (rule record_readable)
next
  assume h: "validate_dataset file_lines = Inr r"
  show "Unparsable \<notin> set file_lines"
  proof
    assume "Unparsable \<in> set file_lines"
    with h have "line_error Unparsable = None"
      unfolding validate_dataset_def by (blast intro: validate_lines_readable)
    then show False by simp
  qed
qed

theorem unreadable_record_aborts_witness:
  "validate_dataset consistent_corpus =
     Inr \<lparr>total_tickets = 2, matches = 2, mismatches = [],
          by_label = [JStr ''Confirmed'' \<mapsto> (1, 0), JStr ''Mitigated'' \<mapsto> (1, 0)]\<rparr>
   \<and> line_error (Parsed record_without_data) = Some (KeyError ''data'')
   \<and> validate_dataset (consistent_corpus @ Parsed record_without_data # consistent_corpus)
       = Inl (KeyError ''data'')
   \<and> Parsed (confirmed_ticket ''Confirmed'') \<in> set consistent_corpus
   \<and> (\<exists>data rs rt ue cr ex pinc a.
          subscript (confirmed_ticket ''Confirmed'') ''data'' = Inr data
        \<and> has_facts data rs rt ue cr ex pinc
        \<and> subscript (confirmed_ticket ''Confirmed'') ''label'' = Inr (JStr a))
   \<and> Unparsable \<notin> set consistent_corpus"
proof -
  note v = consistent_corpus_report
  have m: "Parsed (confirmed_ticket ''Confirmed'') \<in> set consistent_corpus"
    by (simp add: consistent_corpus_def)
  from unreadable_record_aborts [of consistent_corpus _ "Parsed record_without_data"
      "KeyError ''data''" consistent_corpus consistent_corpus _ "confirmed_ticket ''Confirmed''"]
    v m record_without_data_error
  show ?thesis by blast
qed

section \<open>The layout of the comment\<close>

lemma scenario_reads:
  "subscript scenario_data ''category'' = Inr (JStr ''AWS Secret Access Key'')"
  "subscript2 scenario_data ''repo_details'' ''type'' = Inr (JStr ''Prod Microservice'')"
  "subscript2 scenario_data ''repo_details'' ''exposure'' = Inr (JStr ''Public (Open Source)'')"
  "subscript2 scenario_data ''repo_details'' ''criticality'' = Inr (JStr ''Critical (P0 - Customer Data)'')"
  "subscript2 scenario_data ''detection'' ''source'' = Inr (JStr ''TruffleHog'')"
  "subscript2 scenario_data ''investigation'' ''usage_evidence'' = Inr (JStr ''Active usage in CloudTrail/Logs (Last 1h)'')"
  "subscript2 scenario_data ''investigation'' ''rotation_status'' = Inr (JStr ''Active/Valid'')"
  "subscript2 scenario_data ''investigation'' ''impact_radius'' = Inr (JStr ''Org Wide'')"
  "subscript2 scenario_data ''investigation'' ''similar_past_incidents'' = Inr (JStr ''None'')"
  by (simp_all add: scenario_data_def sample_data_def sample_bundle_def ticket_data_def
      subscript2_def ebind_simps)

text \<open>
  Claim C9 does not hold for the synthesizer of fix\_tickets.py. On the scenario bundle,
  which the engine labels Confirmed, \<^verbatim>\<open>generate_comment\<close> returns the four parts
  on eight consecutive lines, with no blank line between the headline, the context, the
  recommendation and the reasoning, while \<^verbatim>\<open>generate_ideal_comment\<close> of
  generate\_tickets.py returns the layout of section 6 for the same input, with its
  three empty lines. In both, the reasoning clauses are joined by single spaces.
\<close>

theorem fixer_comment_has_no_blank_lines:
  "apply_decision_logic scenario_data = Inr ''Confirmed''
   \<and> generate_comment str_of scenario_data ''Confirmed'' =
       Inr (join_with ''\<newline>''
         [''Automated analysis: AWS Secret Access Key detected in Prod Microservice.'',
          ''Context:'',
          ''- Usage: Active usage in CloudTrail/Logs (Last 1h)'',
          ''- Status: Active/Valid'',
          ''- Criticality: Critical (P0 - Customer Data)'',
          ''- Detection Source: TruffleHog'',
          ''Recommendation: Mark as Confirmed.'',
          ''Reasoning: High-confidence active threat detected. Recent usage logs confirm the credential is actively being used. Public exposure increases risk of credential harvesting. Repository handles customer data - immediate rotation required. Impact radius: Org Wide. Initiate incident response protocol.''])
   \<and> generate_ideal_comment str_of scenario_data ''Confirmed'' =
       Inr (join_with ''\<newline>''
         [''Automated analysis: AWS Secret Access Key detected in Prod Microservice.'',
          '''',
          ''Context:'',
          ''- Usage: Active usage in CloudTrail/Logs (Last 1h)'',
          ''- Status: Active/Valid'',
          ''- Criticality: Critical (P0 - Customer Data)'',
          ''- Detection Source: TruffleHog'',
          '''',
          ''Recommendation: Mark as Confirmed.'',
          '''',
          ''Reasoning: High-confidence active threat detected. Recent usage logs confirm the credential is actively being used. Public exposure increases risk of credential harvesting. Repository handles customer data - immediate rotation required. Impact radius: Org Wide. Initiate incident response protocol.''])"
proof (intro conjI)
  show "apply_decision_logic scenario_data = Inr ''Confirmed''"
    unfolding scenario_data_def by (rule apply_confirmed)
next
  show "generate_comment str_of scenario_data ''Confirmed'' =
       Inr (join_with ''\<newline>''
         [''Automated analysis: AWS Secret Access Key detected in Prod Microservice.'',
          ''Context:'',
          ''- Usage: Active usage in CloudTrail/Logs (Last 1h)'',
          ''- Status: Active/Valid'',
          ''- Criticality: Critical (P0 - Customer Data)'',
          ''- Detection Source: TruffleHog'',
          ''Recommendation: Mark as Confirmed.'',
          ''Reasoning: High-confidence active threat detected. Recent usage logs confirm the credential is actively being used. Public exposure increases risk of credential harvesting. Repository handles customer data - immediate rotation required. Impact radius: Org Wide. Initiate incident response protocol.''])"
    by (simp add: generate_comment_def scenario_reads ebind_simps fmt_def clause_if_def Let_def)
next
  show "generate_ideal_comment str_of scenario_data ''Confirmed'' =
       Inr (join_with ''\<newline>''
         [''Automated analysis: AWS Secret Access Key detected in Prod Microservice.'',
          '''',
          ''Context:'',
          ''- Usage: Active usage in CloudTrail/Logs (Last 1h)'',
          ''- Status: Active/Valid'',
          ''- Criticality: Critical (P0 - Customer Data)'',
          ''- Detection Source: TruffleHog'',
          '''',
          ''Recommendation: Mark as Confirmed.'',
          '''',
          ''Reasoning: High-confidence active threat detected. Recent usage logs confirm the credential is actively being used. Public exposure increases risk of credential harvesting. Repository handles customer data - immediate rotation required. Impact radius: Org Wide. Initiate incident response protocol.''])"
    by (simp add: generate_ideal_comment_def generate_reasoning_def scenario_reads ebind_simps
        fmt_def clause_if_def)
qed

end
